theory Spec2Isabelle
  imports Main "HOL-Library.Sublist" "HOL-Library.Multiset"
begin

chapter \<open>The embedding of the program\<close>

section \<open>Data model of the dashboard client\<close>

text \<open>
  The client (the React component \<open>App\<close>) keeps eleven \<open>useState\<close> cells. They are
  gathered in one record; a handler is a function from the record as the handler's
  closure saw it to the record after all of its \<open>set...\<close> calls have been applied.
  The interfaces \<open>Container\<close>, \<open>Image\<close>, \<open>Volume\<close> and \<open>Network\<close> are records with
  the field names of the source prefixed by the interface's name. JSON numbers are
  integers (ids, epoch seconds, byte counts). The two \<open>created\<close> fields that the
  engine may leave out (the table prints \<open>N/A\<close> for them) are optional.
\<close>

datatype TabType = Containers | Images | Volumes | Networks

datatype SortDirection = Asc | Desc

record Container =
  container_id :: string
  container_names :: "string list"
  container_image :: string
  container_state :: string
  container_status :: string
  container_created :: int
  container_size :: int

record Image =
  image_id :: string
  image_repoTags :: "string list"
  image_created :: int
  image_size :: int
  image_virtualSize :: int
  image_containers :: int

record Volume =
  volume_name :: string
  volume_driver :: string
  volume_mountpoint :: string
  volume_created :: "string option"
  volume_size :: int
  volume_refCount :: int

record Network =
  network_id :: string
  network_name :: string
  network_driver :: string
  network_scope :: string
  network_internal :: bool
  network_created :: "string option"

record CountSize =
  count :: int
  total_size :: int

record SystemInfo =
  sys_images :: CountSize
  sys_containers :: CountSize
  sys_volumes :: CountSize

record SortConfig =
  key :: string
  direction :: SortDirection

record AppState =
  activeTab :: TabType
  containers :: "Container list"
  images :: "Image list"
  volumes :: "Volume list"
  networks :: "Network list"
  systemInfo :: "SystemInfo option"
  selectedItems :: "string list"
  loading :: bool
  error :: "string option"
  searchTerm :: string
  sortConfig :: "SortConfig option"

text \<open>
  \<open>selectedItems\<close> is a JavaScript \<open>Set<string>\<close>: a collection without duplicates
  that remembers insertion order (\<open>Array.from\<close> lists it in that order). It is a
  list here; \<open>new_Set\<close> builds one from an array, keeping the first occurrence of
  every element.
\<close>

definition set_has :: "'a list \<Rightarrow> 'a \<Rightarrow> bool" where
  "set_has s x = (x \<in> set s)"

definition set_add :: "'a list \<Rightarrow> 'a \<Rightarrow> 'a list" where
  "set_add s x = (if set_has s x then s else s @ [x])"

definition set_delete :: "'a list \<Rightarrow> 'a \<Rightarrow> 'a list" where
  "set_delete s x = removeAll x s"

definition new_Set :: "'a list \<Rightarrow> 'a list" where
  "new_Set xs = foldl set_add [] xs"

definition set_size :: "'a list \<Rightarrow> nat" where
  "set_size s = length s"

definition Array_from :: "'a list \<Rightarrow> 'a list" where
  "Array_from s = s"

text \<open>The state of the first render: the defaults given to \<open>useState\<close>.\<close>

definition initial_state :: AppState where
  "initial_state =
     \<lparr>activeTab = Containers, containers = [], images = [], volumes = [], networks = [],
      systemInfo = None, selectedItems = [], loading = False, error = None,
      searchTerm = [], sortConfig = None\<rparr>"

section \<open>Sort toggle\<close>

text \<open>
  \<open>handleSort\<close> (part_000, lines 114-120): the direction is \<open>asc\<close> unless the clicked
  key is the current key and the current direction is \<open>asc\<close>.
\<close>

definition handleSort :: "string \<Rightarrow> AppState \<Rightarrow> AppState" where
  "handleSort k s =
     (let direction0 = Asc;
          direction1 =
            (case sortConfig s of
               None \<Rightarrow> direction0
             | Some sc \<Rightarrow> if key sc = k \<and> direction sc = Asc then Desc else direction0)
      in s\<lparr>sortConfig := Some \<lparr>key = k, direction = direction1\<rparr>\<rparr>)"

section \<open>Resource gateway: bulk delete\<close>

text \<open>
  The gateway (src/server.ts) talks to the container engine through a client
  library. The engine is outside the program: it is a parameter here, a function from
  a removal call and the engine's state to the outcome of the call and the state
  after it. The outcome \<open>None\<close> is a removal that resolved; \<open>Some msg\<close> is one
  that rejected with an \<open>Error\<close> whose message is \<open>msg\<close>. The calls the gateway
  issues are recorded, in order, beside the engine's state.
\<close>

datatype ResourceKind = ContainerK | ImageK | VolumeK | NetworkK

record RemoveCall =
  call_kind :: ResourceKind
  call_ident :: string
  call_force :: bool

type_synonym 'e Engine = "RemoveCall \<Rightarrow> 'e \<Rightarrow> string option \<times> 'e"

record 'e World =
  engine :: 'e
  issued :: "RemoveCall list"

definition docker_remove :: "'e Engine \<Rightarrow> RemoveCall \<Rightarrow> 'e World \<Rightarrow> string option \<times> 'e World" where
  "docker_remove rm c w =
     (case rm c (engine w) of
        (r, e') \<Rightarrow> (r, \<lparr>engine = e', issued = issued w @ [c]\<rparr>))"

text \<open>
  One entry of the \<open>results\<close> array: \<open>{id, success, error?}\<close>, or \<open>{name, success,
  error?}\<close> from the volume endpoint. \<open>result_key\<close> is the name of the first
  property (\<open>id\<close> or \<open>name\<close>) and \<open>result_ident\<close> its value.
\<close>

record DeleteResult =
  result_key :: string
  result_ident :: string
  success :: bool
  result_error :: "string option"

datatype 'a HttpReply = Ok200 'a | Err500 string

text \<open>
  The request body after \<open>await c.req.json()\<close>: \<open>None\<close> when the body does not
  parse; otherwise the two properties a handler may read, each \<open>None\<close> when it is
  absent or not an array of strings (the \<open>for ... of\<close> then throws a TypeError
  outside the inner \<open>try\<close>).
\<close>

record DeleteBody =
  body_ids :: "string list option"
  body_names :: "string list option"

text \<open>
  The loop shared by the four handlers (lines 113-121, 135-143, 157-165, 179-187):
  for each identifier, in order, one removal inside its own \<open>try\<close>, and one push
  onto \<open>results\<close> whichever way the removal went.
\<close>

fun remove_each ::
  "'e Engine \<Rightarrow> (string \<Rightarrow> RemoveCall) \<Rightarrow> string \<Rightarrow> string list \<Rightarrow> DeleteResult list \<Rightarrow> 'e World
     \<Rightarrow> DeleteResult list \<times> 'e World" where
  "remove_each rm mk lbl [] results w = (results, w)"
| "remove_each rm mk lbl (i # ids) results w =
     (case docker_remove rm (mk i) w of
        (None, w') \<Rightarrow>
          remove_each rm mk lbl ids
            (results @ [\<lparr>result_key = lbl, result_ident = i, success = True, result_error = None\<rparr>]) w'
      | (Some msg, w') \<Rightarrow>
          remove_each rm mk lbl ids
            (results @ [\<lparr>result_key = lbl, result_ident = i, success = False,
                         result_error = Some msg\<rparr>]) w')"

definition container_remove :: "string \<Rightarrow> RemoveCall" where
  "container_remove i = \<lparr>call_kind = ContainerK, call_ident = i, call_force = True\<rparr>"

definition image_remove :: "string \<Rightarrow> RemoveCall" where
  "image_remove i = \<lparr>call_kind = ImageK, call_ident = i, call_force = True\<rparr>"

definition volume_remove :: "string \<Rightarrow> RemoveCall" where
  "volume_remove n = \<lparr>call_kind = VolumeK, call_ident = n, call_force = True\<rparr>"

definition network_remove :: "string \<Rightarrow> RemoveCall" where
  "network_remove i = \<lparr>call_kind = NetworkK, call_ident = i, call_force = False\<rparr>"

definition delete_containers ::
  "'e Engine \<Rightarrow> DeleteBody option \<Rightarrow> 'e World \<Rightarrow> DeleteResult list HttpReply \<times> 'e World" where
  "delete_containers rm body w =
     (case body of
        None \<Rightarrow> (Err500 ''Failed to delete containers'', w)
      | Some b \<Rightarrow>
          (case body_ids b of
             None \<Rightarrow> (Err500 ''Failed to delete containers'', w)
           | Some ids \<Rightarrow>
               (case remove_each rm container_remove ''id'' ids [] w of
                  (results, w') \<Rightarrow> (Ok200 results, w'))))"

definition delete_images ::
  "'e Engine \<Rightarrow> DeleteBody option \<Rightarrow> 'e World \<Rightarrow> DeleteResult list HttpReply \<times> 'e World" where
  "delete_images rm body w =
     (case body of
        None \<Rightarrow> (Err500 ''Failed to delete images'', w)
      | Some b \<Rightarrow>
          (case body_ids b of
             None \<Rightarrow> (Err500 ''Failed to delete images'', w)
           | Some ids \<Rightarrow>
               (case remove_each rm image_remove ''id'' ids [] w of
                  (results, w') \<Rightarrow> (Ok200 results, w'))))"

definition delete_volumes ::
  "'e Engine \<Rightarrow> DeleteBody option \<Rightarrow> 'e World \<Rightarrow> DeleteResult list HttpReply \<times> 'e World" where
  "delete_volumes rm body w =
     (case body of
        None \<Rightarrow> (Err500 ''Failed to delete volumes'', w)
      | Some b \<Rightarrow>
          (case body_names b of
             None \<Rightarrow> (Err500 ''Failed to delete volumes'', w)
           | Some names \<Rightarrow>
               (case remove_each rm volume_remove ''name'' names [] w of
                  (results, w') \<Rightarrow> (Ok200 results, w'))))"

definition delete_networks ::
  "'e Engine \<Rightarrow> DeleteBody option \<Rightarrow> 'e World \<Rightarrow> DeleteResult list HttpReply \<times> 'e World" where
  "delete_networks rm body w =
     (case body of
        None \<Rightarrow> (Err500 ''Failed to delete networks'', w)
      | Some b \<Rightarrow>
          (case body_ids b of
             None \<Rightarrow> (Err500 ''Failed to delete networks'', w)
           | Some ids \<Rightarrow>
               (case remove_each rm network_remove ''id'' ids [] w of
                  (results, w') \<Rightarrow> (Ok200 results, w'))))"

text \<open>
  What the engine answers to a sequence of calls made one after the other, each on
  the state the previous one left: the reference against which the handlers'
  \<open>results\<close> are compared.
\<close>

fun engine_outcomes :: "'e Engine \<Rightarrow> RemoveCall list \<Rightarrow> 'e \<Rightarrow> string option list" where
  "engine_outcomes rm [] e = []"
| "engine_outcomes rm (c # cs) e = (case rm c e of (r, e') \<Rightarrow> r # engine_outcomes rm cs e')"

definition outcome_entry :: "string \<Rightarrow> string \<Rightarrow> string option \<Rightarrow> DeleteResult" where
  "outcome_entry lbl i r =
     \<lparr>result_key = lbl, result_ident = i, success = (r = None), result_error = r\<rparr>"

definition expected_results ::
  "'e Engine \<Rightarrow> (string \<Rightarrow> RemoveCall) \<Rightarrow> string \<Rightarrow> string list \<Rightarrow> 'e \<Rightarrow> DeleteResult list" where
  "expected_results rm mk lbl ids e =
     map2 (outcome_entry lbl) ids (engine_outcomes rm (map mk ids) e)"

text \<open>
  The engine of the specification's scenario: the removal of \<open>c2\<close> is refused with
  the message \<open>container is running\<close>, every other removal succeeds. It has no state.
\<close>

definition scenario_engine :: "unit Engine" where
  "scenario_engine c e =
     (if call_ident c = ''c2'' then (Some ''container is running'', e) else (None, e))"

definition scenario_world :: "unit World" where
  "scenario_world = \<lparr>engine = (), issued = []\<rparr>"

section \<open>Resource gateway: volume listing\<close>

text \<open>
  A value thrown by an awaited call: an \<open>Error\<close> with its message, or something
  that is not an \<open>Error\<close>. An awaited call is a sum: \<open>Inl\<close> what it threw,
  \<open>Inr\<close> what it resolved to.
\<close>

datatype Thrown = JsError string | NonError

text \<open>
  What the handler of \<open>GET /api/volumes\<close> (lines 60-87) reads of the engine's
  answers: the volume listing \<open>{Volumes}\<close> and, of the disk-usage report, its
  \<open>Volumes\<close> section. \<open>None\<close> is a property that is absent or null.
\<close>

record UsageData =
  usage_Size :: int
  usage_RefCount :: int

record EngineVolume =
  ev_Name :: string
  ev_Driver :: string
  ev_Mountpoint :: string
  ev_CreatedAt :: "string option"
  ev_UsageData :: "UsageData option"

record VolumeListing =
  listing_Volumes :: "EngineVolume list option"

record DfReport =
  df_Volumes :: "EngineVolume list option"

text \<open>\<open>x || 0\<close> on a number, and on a number that may be undefined.\<close>

definition or_zero :: "int \<Rightarrow> int" where
  "or_zero n = (if n = 0 then 0 else n)"

definition opt_or_zero :: "int option \<Rightarrow> int" where
  "opt_or_zero x = (case x of None \<Rightarrow> 0 | Some n \<Rightarrow> or_zero n)"

text \<open>The \<open>Map\<close> filled by \<open>df.Volumes.forEach\<close>: a later entry overwrites an earlier one.\<close>

definition volumeSizes :: "DfReport \<Rightarrow> (string \<rightharpoonup> int)" where
  "volumeSizes df =
     (case df_Volumes df of
        None \<Rightarrow> Map.empty
      | Some vs \<Rightarrow>
          foldl (\<lambda>m vol. m(ev_Name vol \<mapsto> opt_or_zero (map_option usage_Size (ev_UsageData vol))))
            Map.empty vs)"

definition volumeDetails :: "(string \<rightharpoonup> int) \<Rightarrow> EngineVolume \<Rightarrow> Volume" where
  "volumeDetails sizes volume =
     \<lparr>volume_name = ev_Name volume,
      volume_driver = ev_Driver volume,
      volume_mountpoint = ev_Mountpoint volume,
      volume_created = ev_CreatedAt volume,
      volume_size = opt_or_zero (sizes (ev_Name volume)),
      volume_refCount = opt_or_zero (map_option usage_RefCount (ev_UsageData volume))\<rparr>"

definition get_volumes :: "Thrown + VolumeListing \<Rightarrow> Thrown + DfReport \<Rightarrow> Volume list HttpReply" where
  "get_volumes listed usage =
     (case listed of
        Inl _ \<Rightarrow> Err500 ''Failed to fetch volumes''
      | Inr volumesData \<Rightarrow>
          (case usage of
             Inl _ \<Rightarrow> Err500 ''Failed to fetch volumes''
           | Inr df \<Rightarrow>
               (case listing_Volumes volumesData of
                  None \<Rightarrow> Err500 ''Failed to fetch volumes''
                | Some vols \<Rightarrow> Ok200 (map (volumeDetails (volumeSizes df)) vols))))"

text \<open>
  The specification's join, in its own words: the usage figure of the entry of the
  report that has the volume's name, and 0 when no entry has it (also when the report
  has no volume section). Where several entries share the name the last one counts;
  an entry without usage data has the figure 0.
\<close>

definition usage_figure :: "EngineVolume \<Rightarrow> int" where
  "usage_figure e = (case ev_UsageData e of None \<Rightarrow> 0 | Some u \<Rightarrow> usage_Size u)"

definition reported_usage :: "DfReport \<Rightarrow> string \<Rightarrow> int" where
  "reported_usage df n =
     (case df_Volumes df of
        None \<Rightarrow> 0
      | Some es \<Rightarrow>
          (case List.find (\<lambda>e. ev_Name e = n) (rev es) of
             None \<Rightarrow> 0
           | Some e \<Rightarrow> usage_figure e))"

text \<open>
  An engine with two volumes, of which the disk-usage report knows only \<open>data\<close>.
\<close>

definition example_volume :: "string \<Rightarrow> UsageData option \<Rightarrow> EngineVolume" where
  "example_volume n u =
     \<lparr>ev_Name = n, ev_Driver = ''local'', ev_Mountpoint = ''/var/lib/docker/volumes/'' @ n,
      ev_CreatedAt = None, ev_UsageData = u\<rparr>"

definition example_listing :: VolumeListing where
  "example_listing =
     \<lparr>listing_Volumes = Some [example_volume ''data'' None, example_volume ''cache'' None]\<rparr>"

definition example_df :: DfReport where
  "example_df =
     \<lparr>df_Volumes = Some [example_volume ''data'' (Some \<lparr>usage_Size = 100, usage_RefCount = 1\<rparr>)]\<rparr>"

section \<open>Dashboard client: refresh and delete\<close>

text \<open>
  A response as far as the client reads it: \<open>response.ok\<close> and the outcome of
  \<open>await response.json()\<close>, which throws when the body does not parse. The client
  never reads the body of a response that is not ok.
\<close>

record 'a Response =
  ok :: bool
  json :: "Thrown + 'a"

text \<open>The array that \<open>Promise.all\<close> resolves to in \<open>fetchData\<close>.\<close>

record Responses =
  containersRes :: "Container list Response"
  imagesRes :: "Image list Response"
  volumesRes :: "Volume list Response"
  networksRes :: "Network list Response"
  systemRes :: "SystemInfo Response"

text \<open>\<open>err instanceof Error ? err.message : 'An error occurred'\<close>\<close>

definition error_message :: "Thrown \<Rightarrow> string" where
  "error_message err = (case err of JsError m \<Rightarrow> m | NonError \<Rightarrow> ''An error occurred'')"

text \<open>
  Lines 98-102: the five setters run one after the other, each after its own
  \<open>await ... .json()\<close>; a body that fails to parse throws between two setters. The
  result is the state reached and what was thrown, if anything.
\<close>

definition commit_data :: "Responses \<Rightarrow> AppState \<Rightarrow> AppState \<times> Thrown option" where
  "commit_data rs s =
     (case json (containersRes rs) of
        Inl t \<Rightarrow> (s, Some t)
      | Inr cs \<Rightarrow>
     (case json (imagesRes rs) of
        Inl t \<Rightarrow> (s\<lparr>containers := cs\<rparr>, Some t)
      | Inr is \<Rightarrow>
     (case json (volumesRes rs) of
        Inl t \<Rightarrow> (s\<lparr>containers := cs, images := is\<rparr>, Some t)
      | Inr vs \<Rightarrow>
     (case json (networksRes rs) of
        Inl t \<Rightarrow> (s\<lparr>containers := cs, images := is, volumes := vs\<rparr>, Some t)
      | Inr ns \<Rightarrow>
     (case json (systemRes rs) of
        Inl t \<Rightarrow> (s\<lparr>containers := cs, images := is, volumes := vs, networks := ns\<rparr>, Some t)
      | Inr si \<Rightarrow>
          (s\<lparr>containers := cs, images := is, volumes := vs, networks := ns,
             systemInfo := Some si\<rparr>, None))))))"

text \<open>
  \<open>fetchData\<close> (lines 82-108). \<open>fetched\<close> is what \<open>await Promise.all([...])\<close>
  gave: \<open>Inl\<close> when one of the five fetches rejected, \<open>Inr\<close> the five responses.
  The check of line 94 throws before any setter when a response is not ok.
\<close>

definition fetchData :: "Thrown + Responses \<Rightarrow> AppState \<Rightarrow> AppState" where
  "fetchData fetched s0 =
     (let s1 = s0\<lparr>loading := True\<rparr>;
          s2 = s1\<lparr>error := None\<rparr>;
          tried =
            (case fetched of
               Inl t \<Rightarrow> (s2, Some t)
             | Inr rs \<Rightarrow>
                 if \<not> ok (containersRes rs) \<or> \<not> ok (imagesRes rs) \<or> \<not> ok (volumesRes rs)
                    \<or> \<not> ok (networksRes rs) \<or> \<not> ok (systemRes rs)
                 then (s2, Some (JsError ''Failed to fetch data''))
                 else commit_data rs s2);
          caught =
            (case tried of
               (s3, None) \<Rightarrow> s3
             | (s3, Some err) \<Rightarrow> s3\<lparr>error := Some (error_message err)\<rparr>)
      in caught\<lparr>loading := False\<rparr>)"

text \<open>Decimal digits of a natural number, for the template string of line 216.\<close>

fun show_nat :: "nat \<Rightarrow> string" where
  "show_nat n =
     (if n < 10 then [char_of (48 + n)]
      else show_nat (n div 10) @ [char_of (48 + n mod 10)])"

declare show_nat.simps [simp del]

text \<open>
  The request of \<open>handleDelete\<close>: the endpoint of the active tab and the selection
  as \<open>names\<close> for volumes, as \<open>ids\<close> otherwise.
\<close>

record DeleteRequest =
  endpoint :: TabType
  request_body :: DeleteBody

definition deleteRequest :: "AppState \<Rightarrow> DeleteRequest" where
  "deleteRequest s =
     \<lparr>endpoint = activeTab s,
      request_body =
        (if activeTab s = Volumes
         then \<lparr>body_ids = None, body_names = Some (Array_from (selectedItems s))\<rparr>
         else \<lparr>body_ids = Some (Array_from (selectedItems s)), body_names = None\<rparr>)\<rparr>"

text \<open>
  \<open>handleDelete\<close> (lines 186-226). \<open>confirmed\<close> is the answer to the confirmation
  dialog, \<open>send\<close> the network's answer to the DELETE request (\<open>Inl\<close>: the fetch
  rejected; \<open>json = Inl t\<close>: the body did not parse or has no \<open>results\<close>
  array), \<open>fetched\<close> the outcome of the five fetches of the refresh that follows.
  \<open>fetchData\<close> catches its own exceptions, so nothing is thrown after it.
\<close>

definition handleDelete ::
  "bool \<Rightarrow> (DeleteRequest \<Rightarrow> Thrown + DeleteResult list Response) \<Rightarrow> Thrown + Responses
     \<Rightarrow> AppState \<Rightarrow> AppState" where
  "handleDelete confirmed send fetched s0 =
     (if set_size (selectedItems s0) = 0 then s0
      else if \<not> confirmed then s0
      else
        let s1 = s0\<lparr>loading := True\<rparr>;
            s2 = s1\<lparr>error := None\<rparr>;
            tried =
              (case send (deleteRequest s0) of
                 Inl t \<Rightarrow> (s2, Some t)
               | Inr response \<Rightarrow>
                   if \<not> ok response then (s2, Some (JsError ''Failed to delete items''))
                   else
                     (case json response of
                        Inl t \<Rightarrow> (s2, Some t)
                      | Inr results \<Rightarrow>
                          let failed = filter (\<lambda>r. \<not> success r) results;
                              s3 = (if length failed > 0
                                    then s2\<lparr>error := Some (''Failed to delete ''
                                           @ show_nat (length failed) @ '' items'')\<rparr>
                                    else s2);
                              s4 = s3\<lparr>selectedItems := new_Set []\<rparr>;
                              s5 = fetchData fetched s4
                          in (s5, None)));
            caught =
              (case tried of
                 (s6, None) \<Rightarrow> s6
               | (s6, Some err) \<Rightarrow> s6\<lparr>error := Some (error_message err)\<rparr>)
        in caught\<lparr>loading := False\<rparr>)"

text \<open>
  The client's request answered by the gateway: the handler of the endpoint runs on
  the body the client sent, and its reply comes back as a response.
\<close>

definition gateway_send ::
  "'e Engine \<Rightarrow> 'e World \<Rightarrow> DeleteRequest \<Rightarrow> Thrown + DeleteResult list Response" where
  "gateway_send rm w req =
     (let handler = (case endpoint req of
                       Containers \<Rightarrow> delete_containers
                     | Images \<Rightarrow> delete_images
                     | Volumes \<Rightarrow> delete_volumes
                     | Networks \<Rightarrow> delete_networks)
      in case fst (handler rm (Some (request_body req)) w) of
           Ok200 results \<Rightarrow> Inr \<lparr>ok = True, json = Inr results\<rparr>
         | Err500 msg \<Rightarrow> Inr \<lparr>ok = False, json = Inl NonError\<rparr>)"

text \<open>
  Data of the specification's scenarios: two containers loaded and selected, a
  refresh after which only \<open>c2\<close> is left, and a refresh whose image fetch is
  answered with status 500 while the other four carry new data.
\<close>

definition example_container :: "string \<Rightarrow> string \<Rightarrow> Container" where
  "example_container i n =
     \<lparr>container_id = i, container_names = [n], container_image = ''nginx:latest'',
      container_state = ''running'', container_status = ''Up 2 hours'',
      container_created = 1700000000, container_size = 0\<rparr>"

definition loaded_state :: AppState where
  "loaded_state =
     initial_state\<lparr>containers := [example_container ''c1'' ''/web'', example_container ''c2'' ''/db''],
                   selectedItems := [''c1'', ''c2'']\<rparr>"

definition example_system :: SystemInfo where
  "example_system =
     \<lparr>sys_images = \<lparr>count = 0, total_size = 0\<rparr>,
      sys_containers = \<lparr>count = 1, total_size = 0\<rparr>,
      sys_volumes = \<lparr>count = 0, total_size = 0\<rparr>\<rparr>"

definition refreshed :: Responses where
  "refreshed =
     \<lparr>containersRes = \<lparr>ok = True, json = Inr [example_container ''c2'' ''/db'']\<rparr>,
      imagesRes = \<lparr>ok = True, json = Inr []\<rparr>,
      volumesRes = \<lparr>ok = True, json = Inr []\<rparr>,
      networksRes = \<lparr>ok = True, json = Inr []\<rparr>,
      systemRes = \<lparr>ok = True, json = Inr example_system\<rparr>\<rparr>"

definition images_failed :: Responses where
  "images_failed = refreshed\<lparr>imagesRes := \<lparr>ok = False, json = Inl NonError\<rparr>\<rparr>"

section \<open>Dashboard client: the table\<close>

text \<open>
  The two string operations that depend on the JavaScript runtime and its locale,
  \<open>String.prototype.toLowerCase\<close> and \<open>String.prototype.localeCompare\<close>, are
  parameters of the model.
\<close>

record Runtime =
  toLowerCase :: "string \<Rightarrow> string"
  localeCompare :: "string \<Rightarrow> string \<Rightarrow> int"

text \<open>
  The rows of the table are typed \<open>any[]\<close>: a row is one of the four records, and a
  property read \<open>a[key]\<close> gives a JavaScript value, \<open>undefined\<close> for a property the
  row does not have (properties inherited from \<open>Object.prototype\<close> are left out).
\<close>

datatype JsValue = VStr string | VNum int | VBool bool | VStrs "string list" | VUndefined | VNull

datatype Item = ContainerItem Container | ImageItem Image | VolumeItem Volume | NetworkItem Network

datatype JsException = TypeError

definition opt_str :: "string option \<Rightarrow> JsValue" where
  "opt_str x = (case x of None \<Rightarrow> VUndefined | Some v \<Rightarrow> VStr v)"

fun get_prop :: "Item \<Rightarrow> string \<Rightarrow> JsValue" where
  "get_prop (ContainerItem c) k =
     (if k = ''id'' then VStr (container_id c)
      else if k = ''names'' then VStrs (container_names c)
      else if k = ''image'' then VStr (container_image c)
      else if k = ''state'' then VStr (container_state c)
      else if k = ''status'' then VStr (container_status c)
      else if k = ''created'' then VNum (container_created c)
      else if k = ''size'' then VNum (container_size c)
      else VUndefined)"
| "get_prop (ImageItem i) k =
     (if k = ''id'' then VStr (image_id i)
      else if k = ''repoTags'' then VStrs (image_repoTags i)
      else if k = ''created'' then VNum (image_created i)
      else if k = ''size'' then VNum (image_size i)
      else if k = ''virtualSize'' then VNum (image_virtualSize i)
      else if k = ''containers'' then VNum (image_containers i)
      else VUndefined)"
| "get_prop (VolumeItem v) k =
     (if k = ''name'' then VStr (volume_name v)
      else if k = ''driver'' then VStr (volume_driver v)
      else if k = ''mountpoint'' then VStr (volume_mountpoint v)
      else if k = ''created'' then opt_str (volume_created v)
      else if k = ''size'' then VNum (volume_size v)
      else if k = ''refCount'' then VNum (volume_refCount v)
      else VUndefined)"
| "get_prop (NetworkItem n) k =
     (if k = ''id'' then VStr (network_id n)
      else if k = ''name'' then VStr (network_name n)
      else if k = ''driver'' then VStr (network_driver n)
      else if k = ''scope'' then VStr (network_scope n)
      else if k = ''internal'' then VBool (network_internal n)
      else if k = ''created'' then opt_str (network_created n)
      else VUndefined)"

subsection \<open>Search filter\<close>

text \<open>\<open>s.includes(t)\<close>: \<open>t\<close> occurs in \<open>s\<close> as a contiguous run.\<close>

fun js_includes :: "string \<Rightarrow> string \<Rightarrow> bool" where
  "js_includes [] t = (t = [])"
| "js_includes (c # cs) t = (prefix t (c # cs) \<or> js_includes cs t)"

text \<open>
  \<open>getFilteredItems\<close> (lines 228-269). The \<open>switch\<close> on the active tab inside the
  filter callback is taken once for the whole array here, since the callback does not
  change the tab; the rows of a tab are the records of that tab's collection.
\<close>

definition getFilteredItems :: "Runtime \<Rightarrow> AppState \<Rightarrow> Item list" where
  "getFilteredItems rt s =
     (let searchLower = toLowerCase rt (searchTerm s) in
      case activeTab s of
        Containers \<Rightarrow>
          map ContainerItem
            (if searchTerm s = [] then containers s
             else filter (\<lambda>item.
                    list_ex (\<lambda>name. js_includes (toLowerCase rt name) searchLower) (container_names item)
                    \<or> js_includes (toLowerCase rt (container_image item)) searchLower
                    \<or> js_includes (toLowerCase rt (container_status item)) searchLower)
                  (containers s))
      | Images \<Rightarrow>
          map ImageItem
            (if searchTerm s = [] then images s
             else filter (\<lambda>item.
                    list_ex (\<lambda>tag. js_includes (toLowerCase rt tag) searchLower) (image_repoTags item)
                    \<or> js_includes (toLowerCase rt (image_id item)) searchLower)
                  (images s))
      | Volumes \<Rightarrow>
          map VolumeItem
            (if searchTerm s = [] then volumes s
             else filter (\<lambda>item.
                    js_includes (toLowerCase rt (volume_name item)) searchLower
                    \<or> js_includes (toLowerCase rt (volume_driver item)) searchLower)
                  (volumes s))
      | Networks \<Rightarrow>
          map NetworkItem
            (if searchTerm s = [] then networks s
             else filter (\<lambda>item.
                    js_includes (toLowerCase rt (network_name item)) searchLower
                    \<or> js_includes (toLowerCase rt (network_driver item)) searchLower)
                  (networks s)))"

subsection \<open>Sorting\<close>

text \<open>\<open>String(v)\<close>, used by the last branch of the comparison.\<close>

definition show_int :: "int \<Rightarrow> string" where
  "show_int i = (if i < 0 then CHR ''-'' # show_nat (nat (- i)) else show_nat (nat i))"

fun join_comma :: "string list \<Rightarrow> string" where
  "join_comma [] = []"
| "join_comma [x] = x"
| "join_comma (x # y # ys) = x @ CHR '','' # join_comma (y # ys)"

fun js_String :: "JsValue \<Rightarrow> string" where
  "js_String (VStr v) = v"
| "js_String (VNum n) = show_int n"
| "js_String (VBool b) = (if b then ''true'' else ''false'')"
| "js_String (VStrs xs) = join_comma xs"
| "js_String VUndefined = ''undefined''"
| "js_String VNull = ''null''"

text \<open>
  \<open>xs[0]\<close> on an array (\<open>undefined\<close> when it is empty), \<open>name.replace('/', '')\<close>
  (a string pattern replaces its first occurrence only) and \<open>x || ''\<close> on a value
  that is a string or \<open>undefined\<close>.
\<close>

definition first :: "'a list \<Rightarrow> 'a option" where
  "first xs = (case xs of [] \<Rightarrow> None | x # _ \<Rightarrow> Some x)"

definition replace_slash :: "string \<Rightarrow> string" where
  "replace_slash name = remove1 CHR ''/'' name"

definition or_empty :: "string option \<Rightarrow> string" where
  "or_empty x = (case x of None \<Rightarrow> [] | Some v \<Rightarrow> if v = [] then [] else v)"

text \<open>
  Lines 126-141: the value of a row under the sort key, with the special cases of
  the name and tag columns. \<open>a.names[0]\<close> and \<open>a.repoTags[0]\<close> throw a TypeError
  on a row without that property.
\<close>

definition sortValue :: "TabType \<Rightarrow> string \<Rightarrow> Item \<Rightarrow> JsException + JsValue" where
  "sortValue tab k a =
     (let aValue = get_prop a k in
      if k = ''name'' \<or> k = ''names'' then
        (if tab = Containers then
           (case get_prop a ''names'' of
              VStrs names \<Rightarrow> Inr (VStr (or_empty (map_option replace_slash (first names))))
            | _ \<Rightarrow> Inl TypeError)
         else if tab = Volumes \<or> tab = Networks then Inr (get_prop a ''name'')
         else Inr aValue)
      else if k = ''repoTags'' then
        (case get_prop a ''repoTags'' of
           VStrs tags \<Rightarrow> Inr (VStr (or_empty (first tags)))
         | _ \<Rightarrow> Inl TypeError)
      else Inr aValue)"

text \<open>Lines 144-145: \<open>null\<close> and \<open>undefined\<close> become the empty string.\<close>

definition nullish :: "JsValue \<Rightarrow> JsValue" where
  "nullish v = (if v = VNull \<or> v = VUndefined then VStr [] else v)"

text \<open>Lines 148-157: the comparison by the types of the two values.\<close>

fun comparison :: "Runtime \<Rightarrow> JsValue \<Rightarrow> JsValue \<Rightarrow> int" where
  "comparison rt (VStr a) (VStr b) = localeCompare rt (toLowerCase rt a) (toLowerCase rt b)"
| "comparison rt (VNum a) (VNum b) = a - b"
| "comparison rt (VBool a) (VBool b) = (if a = b then 0 else if a then 1 else - 1)"
| "comparison rt a b = localeCompare rt (js_String a) (js_String b)"

text \<open>The comparison function handed to \<open>sort\<close> (lines 125-160).\<close>

definition compareItems ::
  "Runtime \<Rightarrow> TabType \<Rightarrow> SortConfig \<Rightarrow> Item \<Rightarrow> Item \<Rightarrow> JsException + int" where
  "compareItems rt tab sc a b =
     (case sortValue tab (key sc) a of
        Inl e \<Rightarrow> Inl e
      | Inr aValue \<Rightarrow>
          (case sortValue tab (key sc) b of
             Inl e \<Rightarrow> Inl e
           | Inr bValue \<Rightarrow>
               let c = comparison rt (nullish aValue) (nullish bValue)
               in Inr (if direction sc = Asc then c else - c)))"

text \<open>
  \<open>Array.prototype.sort\<close> with a comparison function. The language fixes its result
  only as far as this: the sort is stable, and it calls the function on pairs of elements
  of the array. It is an insertion sort here: an element goes in front of the first
  element it does not compare greater than, so rows that compare equal keep their
  order; an array of fewer than two elements is never compared; an exception thrown by
  the comparison function ends the sort.
\<close>

fun insert_row :: "('a \<Rightarrow> 'a \<Rightarrow> JsException + int) \<Rightarrow> 'a \<Rightarrow> 'a list \<Rightarrow> JsException + 'a list" where
  "insert_row cmp x [] = Inr [x]"
| "insert_row cmp x (y # ys) =
     (case cmp x y of
        Inl e \<Rightarrow> Inl e
      | Inr c \<Rightarrow>
          if c \<le> 0 then Inr (x # y # ys)
          else (case insert_row cmp x ys of Inl e \<Rightarrow> Inl e | Inr zs \<Rightarrow> Inr (y # zs)))"

fun array_sort :: "('a \<Rightarrow> 'a \<Rightarrow> JsException + int) \<Rightarrow> 'a list \<Rightarrow> JsException + 'a list" where
  "array_sort cmp [] = Inr []"
| "array_sort cmp (x # xs) =
     (case array_sort cmp xs of Inl e \<Rightarrow> Inl e | Inr ys \<Rightarrow> insert_row cmp x ys)"

text \<open>\<open>sortItems\<close> (lines 122-161) and \<open>getSortedAndFilteredItems\<close> (lines 271-274).\<close>

definition sortItems :: "Runtime \<Rightarrow> AppState \<Rightarrow> Item list \<Rightarrow> JsException + Item list" where
  "sortItems rt s items =
     (case sortConfig s of
        None \<Rightarrow> Inr items
      | Some sc \<Rightarrow> array_sort (compareItems rt (activeTab s) sc) items)"

definition getSortedAndFilteredItems :: "Runtime \<Rightarrow> AppState \<Rightarrow> JsException + Item list" where
  "getSortedAndFilteredItems rt s = (let filtered = getFilteredItems rt s in sortItems rt s filtered)"

text \<open>
  A runtime for the examples: ASCII letters are lowered, and strings are compared
  by their character codes.
\<close>

definition ascii_lower :: "char \<Rightarrow> char" where
  "ascii_lower c =
     (case map_of (zip ''ABCDEFGHIJKLMNOPQRSTUVWXYZ'' ''abcdefghijklmnopqrstuvwxyz'') c of
        None \<Rightarrow> c
      | Some l \<Rightarrow> l)"

fun code_compare :: "string \<Rightarrow> string \<Rightarrow> int" where
  "code_compare [] [] = 0"
| "code_compare [] (y # ys) = - 1"
| "code_compare (x # xs) [] = 1"
| "code_compare (x # xs) (y # ys) =
     (if x = y then code_compare xs ys
      else if (of_char x :: nat) < of_char y then - 1 else 1)"

definition ascii_runtime :: Runtime where
  "ascii_runtime = \<lparr>toLowerCase = map ascii_lower, localeCompare = code_compare\<rparr>"




definition example_image :: "string \<Rightarrow> string list \<Rightarrow> int \<Rightarrow> Image" where
  "example_image i tags sz =
     \<lparr>image_id = i, image_repoTags = tags, image_created = 1700000000, image_size = sz,
      image_virtualSize = sz, image_containers = 0\<rparr>"

definition images_state :: AppState where
  "images_state =
     initial_state\<lparr>activeTab := Images,
                   images := [example_image ''sha256:aaa'' [''x:latest''] 100,
                              example_image ''sha256:bbb'' [] 50,
                              example_image ''sha256:ccc'' [''y:1''] 100]\<rparr>"

text \<open>
  The specification's words for the derived row set: the rows of the active tab,
  the fields of a row that the search looks at, and the filter as a case-insensitive
  substring match over those fields.
\<close>

definition tabItems :: "AppState \<Rightarrow> Item list" where
  "tabItems s =
     (case activeTab s of
        Containers \<Rightarrow> map ContainerItem (containers s)
      | Images \<Rightarrow> map ImageItem (images s)
      | Volumes \<Rightarrow> map VolumeItem (volumes s)
      | Networks \<Rightarrow> map NetworkItem (networks s))"

fun search_fields :: "Item \<Rightarrow> string list" where
  "search_fields (ContainerItem c) = container_names c @ [container_image c, container_status c]"
| "search_fields (ImageItem i) = image_repoTags i @ [image_id i]"
| "search_fields (VolumeItem v) = [volume_name v, volume_driver v]"
| "search_fields (NetworkItem n) = [network_name n, network_driver n]"

definition search_match :: "Runtime \<Rightarrow> string \<Rightarrow> Item \<Rightarrow> bool" where
  "search_match rt term item =
     list_ex (\<lambda>field. js_includes (toLowerCase rt field) (toLowerCase rt term)) (search_fields item)"

definition search_filter :: "Runtime \<Rightarrow> string \<Rightarrow> Item list \<Rightarrow> Item list" where
  "search_filter rt term items = (if term = [] then items else filter (search_match rt term) items)"

subsection \<open>Selection\<close>

text \<open>
  \<open>activeTab === 'volumes' ? item.name : item.id\<close> (line 166). The rows that reach it
  are rows of the active tab (lemma \<open>visible_rows_subset\<close>), which have that property
  and have a string in it (lemma \<open>rowId_tabItems\<close>); the last case stands for the
  \<open>undefined\<close> that a row of another kind would give and is never taken.
\<close>

definition rowId :: "TabType \<Rightarrow> Item \<Rightarrow> string" where
  "rowId tab item =
     (case get_prop item (if tab = Volumes then ''name'' else ''id'') of
        VStr v \<Rightarrow> v
      | _ \<Rightarrow> ''undefined'')"

text \<open>
  \<open>handleSelectAll\<close> (lines 163-174). An exception of the sort leaves the handler
  before it sets anything.
\<close>

definition handleSelectAll :: "Runtime \<Rightarrow> AppState \<Rightarrow> JsException + AppState" where
  "handleSelectAll rt s =
     (case getSortedAndFilteredItems rt s of
        Inl e \<Rightarrow> Inl e
      | Inr items \<Rightarrow>
          let allIds = map (rowId (activeTab s)) items
          in if set_size (selectedItems s) = length allIds
             then Inr (s\<lparr>selectedItems := new_Set []\<rparr>)
             else Inr (s\<lparr>selectedItems := new_Set allIds\<rparr>))"

text \<open>\<open>handleSelectItem\<close> (lines 176-184).\<close>

definition handleSelectItem :: "string \<Rightarrow> AppState \<Rightarrow> AppState" where
  "handleSelectItem i s =
     (let newSelected = new_Set (selectedItems s);
          newSelected' = (if set_has newSelected i then set_delete newSelected i
                          else set_add newSelected i)
      in s\<lparr>selectedItems := newSelected'\<rparr>)"

text \<open>
  The \<open>onClick\<close> of a tab button (lines 525-530 and its three copies) and the
  \<open>onChange\<close> of the search box (line 596).
\<close>

definition selectTab :: "TabType \<Rightarrow> AppState \<Rightarrow> AppState" where
  "selectTab tab s =
     s\<lparr>activeTab := tab, selectedItems := new_Set [], searchTerm := [], sortConfig := None\<rparr>"

definition setSearchTerm :: "string \<Rightarrow> AppState \<Rightarrow> AppState" where
  "setSearchTerm v s = s\<lparr>searchTerm := v\<rparr>"

text \<open>
  What the user can do, with the answers of the outside world that the handler
  consumes, and the state after the handler has run.
\<close>

datatype Event =
    TabClick TabType
  | SearchInput string
  | HeaderClick string
  | RowToggle string
  | SelectAllClick
  | DeleteClick bool "DeleteRequest \<Rightarrow> Thrown + DeleteResult list Response" "Thrown + Responses"
  | RefreshClick "Thrown + Responses"

fun step :: "Runtime \<Rightarrow> Event \<Rightarrow> AppState \<Rightarrow> JsException + AppState" where
  "step rt (TabClick tab) s = Inr (selectTab tab s)"
| "step rt (SearchInput v) s = Inr (setSearchTerm v s)"
| "step rt (HeaderClick k) s = Inr (handleSort k s)"
| "step rt (RowToggle i) s = Inr (handleSelectItem i s)"
| "step rt SelectAllClick s = handleSelectAll rt s"
| "step rt (DeleteClick confirmed send fetched) s = Inr (handleDelete confirmed send fetched s)"
| "step rt (RefreshClick fetched) s = Inr (fetchData fetched s)"

text \<open>The identifier of a row: the name of a volume, the id of anything else.\<close>

fun item_ident :: "Item \<Rightarrow> string" where
  "item_ident (ContainerItem c) = container_id c"
| "item_ident (ImageItem i) = image_id i"
| "item_ident (VolumeItem v) = volume_name v"
| "item_ident (NetworkItem n) = network_id n"

text \<open>
  Four containers, three of them selected, and a search text that leaves two of the
  selected ones visible.
\<close>

definition narrowed_state :: AppState where
  "narrowed_state =
     initial_state\<lparr>containers := [example_container ''a'' ''/web-a'', example_container ''b'' ''/web-b'',
                                  example_container ''c'' ''/db'', example_container ''d'' ''/cache''],
                   selectedItems := [''a'', ''b'', ''c''],
                   searchTerm := ''web''\<rparr>"

chapter \<open>Properties\<close>

section \<open>Sort toggle\<close>

text \<open>
  Claim C5. For every sort state and every clicked column header: when the clicked
  column is already the sort key with ascending direction the new state is that
  column descending; in every other prior state (no sort, another column, or the same
  column descending) the new state is the clicked column ascending. So the same header
  clicked again and again gives ascending, descending, ascending, and a click on a
  different header always gives ascending. Nothing but the sort state changes.
\<close>

theorem handleSort_toggle:
  "sortConfig (handleSort k s) =
     Some \<lparr>key = k,
           direction = (if sortConfig s = Some \<lparr>key = k, direction = Asc\<rparr> then Desc else Asc)\<rparr>
   \<and> sortConfig (handleSort k (handleSort k (s\<lparr>sortConfig := None\<rparr>)))
       = Some \<lparr>key = k, direction = Desc\<rparr>
   \<and> sortConfig (handleSort k (handleSort k (handleSort k (s\<lparr>sortConfig := None\<rparr>))))
       = Some \<lparr>key = k, direction = Asc\<rparr>
   \<and> (k' \<noteq> k \<longrightarrow> sortConfig (handleSort k' (handleSort k s))
       = Some \<lparr>key = k', direction = Asc\<rparr>)
   \<and> handleSort k s = s\<lparr>sortConfig := sortConfig (handleSort k s)\<rparr>"
  by (cases "sortConfig s") (auto simp: handleSort_def Let_def)

theorem handleSort_toggle_witness:
  "''created'' \<noteq> ''size''
   \<and> sortConfig (handleSort ''created'' (handleSort ''size'' initial_state))
       = Some \<lparr>key = ''created'', direction = Asc\<rparr>"
  using handleSort_toggle [of "''size''" initial_state "''created''"] by simp

section \<open>Resource gateway: bulk delete\<close>

lemma length_engine_outcomes: "length (engine_outcomes rm cs e) = length cs"
  by (induction cs arbitrary: e) (auto split: prod.splits)

lemma remove_each_results:
  "fst (remove_each rm mk lbl ids acc w) = acc @ expected_results rm mk lbl ids (engine w)"
proof (induction ids arbitrary: acc w)
  case Nil
  show ?case by (simp add: expected_results_def)
next
  case (Cons i ids)
  obtain r e' where step: "rm (mk i) (engine w) = (r, e')" by (cases "rm (mk i) (engine w)")
  show ?case
  proof (cases r)
    case None
    with step Cons show ?thesis
      by (simp add: docker_remove_def expected_results_def outcome_entry_def)
  next
    case (Some msg)
    with step Cons show ?thesis
      by (simp add: docker_remove_def expected_results_def outcome_entry_def)
  qed
qed

lemma remove_each_issued:
  "issued (snd (remove_each rm mk lbl ids acc w)) = issued w @ map mk ids"
proof (induction ids arbitrary: acc w)
  case Nil
  show ?case by simp
next
  case (Cons i ids)
  obtain r e' where step: "rm (mk i) (engine w) = (r, e')" by (cases "rm (mk i) (engine w)")
  with Cons show ?case
    by (cases r) (simp_all add: docker_remove_def)
qed

lemma expected_results_length: "length (expected_results rm mk lbl ids e) = length ids"
  by (simp add: expected_results_def length_engine_outcomes)

lemma expected_results_idents: "map result_ident (expected_results rm mk lbl ids e) = ids"
proof -
  have "length ids = length (engine_outcomes rm (map mk ids) e)"
    by (simp add: length_engine_outcomes)
  then show ?thesis
    unfolding expected_results_def
    by (induction ids "engine_outcomes rm (map mk ids) e" arbitrary: e rule: list_induct2)
       (auto simp: outcome_entry_def split: prod.splits)
qed

text \<open>
  Claim C1. A DELETE request to any of the four resource endpoints that carries a list
  of N identifiers is answered with status 200 and exactly N outcome entries, in the
  order of the list, the i-th entry naming the i-th identifier. Each entry is tagged
  success when the engine accepted that removal and failure, with the engine's message,
  when it refused; the removals are attempted one after the other on the engine, each
  on the state the previous attempt left, whatever the earlier outcomes were, so a
  failure neither stops nor skips later identifiers and a run of failures still yields
  all N entries.
\<close>

theorem delete_reports_every_identifier:
  "fst (delete_containers rm (Some \<lparr>body_ids = Some ids, body_names = nm\<rparr>) w)
     = Ok200 (expected_results rm container_remove ''id'' ids (engine w))
   \<and> fst (delete_images rm (Some \<lparr>body_ids = Some ids, body_names = nm\<rparr>) w)
     = Ok200 (expected_results rm image_remove ''id'' ids (engine w))
   \<and> fst (delete_volumes rm (Some \<lparr>body_ids = im, body_names = Some ids\<rparr>) w)
     = Ok200 (expected_results rm volume_remove ''name'' ids (engine w))
   \<and> fst (delete_networks rm (Some \<lparr>body_ids = Some ids, body_names = nm\<rparr>) w)
     = Ok200 (expected_results rm network_remove ''id'' ids (engine w))
   \<and> length (expected_results rm mk lbl ids e) = length ids
   \<and> map result_ident (expected_results rm mk lbl ids e) = ids
   \<and> expected_results rm mk lbl [] e = []
   \<and> expected_results rm mk lbl (i # ids) e
     = \<lparr>result_key = lbl, result_ident = i, success = (fst (rm (mk i) e) = None),
        result_error = fst (rm (mk i) e)\<rparr>
       # expected_results rm mk lbl ids (snd (rm (mk i) e))"
proof -
  have results: "\<And>mk lbl. (case remove_each rm mk lbl ids [] w of (results, w') \<Rightarrow> (Ok200 results, w'))
      = (Ok200 (expected_results rm mk lbl ids (engine w)), snd (remove_each rm mk lbl ids [] w))"
    by (simp add: case_prod_beta remove_each_results)
  have c: "fst (delete_containers rm (Some \<lparr>body_ids = Some ids, body_names = nm\<rparr>) w)
     = Ok200 (expected_results rm container_remove ''id'' ids (engine w))"
    by (simp add: delete_containers_def results)
  have i: "fst (delete_images rm (Some \<lparr>body_ids = Some ids, body_names = nm\<rparr>) w)
     = Ok200 (expected_results rm image_remove ''id'' ids (engine w))"
    by (simp add: delete_images_def results)
  have v: "fst (delete_volumes rm (Some \<lparr>body_ids = im, body_names = Some ids\<rparr>) w)
     = Ok200 (expected_results rm volume_remove ''name'' ids (engine w))"
    by (simp add: delete_volumes_def results)
  have n: "fst (delete_networks rm (Some \<lparr>body_ids = Some ids, body_names = nm\<rparr>) w)
     = Ok200 (expected_results rm network_remove ''id'' ids (engine w))"
    by (simp add: delete_networks_def results)
  have unfold: "expected_results rm mk lbl (i # ids) e
     = \<lparr>result_key = lbl, result_ident = i, success = (fst (rm (mk i) e) = None),
        result_error = fst (rm (mk i) e)\<rparr>
       # expected_results rm mk lbl ids (snd (rm (mk i) e))"
    by (cases "rm (mk i) e") (simp add: expected_results_def outcome_entry_def)
  have nil: "expected_results rm mk lbl [] e = []"
    by (simp add: expected_results_def)
  show ?thesis
    using c i v n unfold nil expected_results_length [of rm mk lbl ids e]
      expected_results_idents [of rm mk lbl ids e]
    by blast
qed

theorem delete_reports_every_identifier_witness:
  "fst (delete_containers scenario_engine
          (Some \<lparr>body_ids = Some [''c1'', ''c2''], body_names = None\<rparr>) scenario_world)
     = Ok200 [\<lparr>result_key = ''id'', result_ident = ''c1'', success = True, result_error = None\<rparr>,
              \<lparr>result_key = ''id'', result_ident = ''c2'', success = False,
               result_error = Some ''container is running''\<rparr>]"
  using delete_reports_every_identifier
    [of scenario_engine "[''c1'', ''c2'']" None scenario_world None]
  by (simp add: expected_results_def outcome_entry_def scenario_engine_def scenario_world_def
      container_remove_def)

text \<open>
  Claim C8. For every identifier of a bulk delete the gateway issues exactly one
  removal to the engine, in the order of the list: a forced removal on the container,
  image and volume endpoints, a plain (not forced) removal on the network endpoint.
\<close>

theorem delete_force_flags:
  "issued (snd (delete_containers rm (Some \<lparr>body_ids = Some ids, body_names = nm\<rparr>) w))
     = issued w @ map (\<lambda>i. \<lparr>call_kind = ContainerK, call_ident = i, call_force = True\<rparr>) ids
   \<and> issued (snd (delete_images rm (Some \<lparr>body_ids = Some ids, body_names = nm\<rparr>) w))
     = issued w @ map (\<lambda>i. \<lparr>call_kind = ImageK, call_ident = i, call_force = True\<rparr>) ids
   \<and> issued (snd (delete_volumes rm (Some \<lparr>body_ids = im, body_names = Some ids\<rparr>) w))
     = issued w @ map (\<lambda>i. \<lparr>call_kind = VolumeK, call_ident = i, call_force = True\<rparr>) ids
   \<and> issued (snd (delete_networks rm (Some \<lparr>body_ids = Some ids, body_names = nm\<rparr>) w))
     = issued w @ map (\<lambda>i. \<lparr>call_kind = NetworkK, call_ident = i, call_force = False\<rparr>) ids"
proof -
  have log: "\<And>mk lbl. snd (case remove_each rm mk lbl ids [] w of (results, w') \<Rightarrow> (Ok200 results, w'))
      = snd (remove_each rm mk lbl ids [] w)"
    by (simp add: case_prod_beta)
  have c: "issued (snd (delete_containers rm (Some \<lparr>body_ids = Some ids, body_names = nm\<rparr>) w))
     = issued w @ map container_remove ids"
    by (simp add: delete_containers_def log remove_each_issued)
  have i: "issued (snd (delete_images rm (Some \<lparr>body_ids = Some ids, body_names = nm\<rparr>) w))
     = issued w @ map image_remove ids"
    by (simp add: delete_images_def log remove_each_issued)
  have v: "issued (snd (delete_volumes rm (Some \<lparr>body_ids = im, body_names = Some ids\<rparr>) w))
     = issued w @ map volume_remove ids"
    by (simp add: delete_volumes_def log remove_each_issued)
  have n: "issued (snd (delete_networks rm (Some \<lparr>body_ids = Some ids, body_names = nm\<rparr>) w))
     = issued w @ map network_remove ids"
    by (simp add: delete_networks_def log remove_each_issued)
  have unf: "container_remove = (\<lambda>i. \<lparr>call_kind = ContainerK, call_ident = i, call_force = True\<rparr>)"
    "image_remove = (\<lambda>i. \<lparr>call_kind = ImageK, call_ident = i, call_force = True\<rparr>)"
    "volume_remove = (\<lambda>i. \<lparr>call_kind = VolumeK, call_ident = i, call_force = True\<rparr>)"
    "network_remove = (\<lambda>i. \<lparr>call_kind = NetworkK, call_ident = i, call_force = False\<rparr>)"
    by (auto simp: container_remove_def image_remove_def volume_remove_def network_remove_def)
  show ?thesis using c i v n unfolding unf by blast
qed

theorem delete_force_flags_witness:
  "issued (snd (delete_networks scenario_engine
          (Some \<lparr>body_ids = Some [''n1'', ''c2''], body_names = None\<rparr>) scenario_world))
     = [\<lparr>call_kind = NetworkK, call_ident = ''n1'', call_force = False\<rparr>,
        \<lparr>call_kind = NetworkK, call_ident = ''c2'', call_force = False\<rparr>]
   \<and> issued (snd (delete_volumes scenario_engine
          (Some \<lparr>body_ids = None, body_names = Some [''n1'', ''c2'']\<rparr>) scenario_world))
     = [\<lparr>call_kind = VolumeK, call_ident = ''n1'', call_force = True\<rparr>,
        \<lparr>call_kind = VolumeK, call_ident = ''c2'', call_force = True\<rparr>]"
  using delete_force_flags [of scenario_engine "[''n1'', ''c2'']" None scenario_world None]
  by (simp add: scenario_world_def)

section \<open>Resource gateway: volume listing\<close>

lemma or_zero_id: "or_zero n = n"
  by (simp add: or_zero_def)

lemma foldl_upd_lookup:
  "foldl (\<lambda>m v. m(f v \<mapsto> g v)) m0 vs n =
     (case List.find (\<lambda>v. f v = n) (rev vs) of None \<Rightarrow> m0 n | Some v \<Rightarrow> Some (g v))"
  by (induction vs rule: rev_induct) simp_all

lemma volumeSizes_reported: "opt_or_zero (volumeSizes df n) = reported_usage df n"
proof (cases "df_Volumes df")
  case None
  then show ?thesis by (simp add: volumeSizes_def reported_usage_def opt_or_zero_def)
next
  case (Some es)
  then show ?thesis
    by (simp add: volumeSizes_def reported_usage_def foldl_upd_lookup opt_or_zero_def
        or_zero_id usage_figure_def split: option.splits)
qed

lemma find_rev_distinct:
  assumes "distinct (map f es)" and "e \<in> set es"
  shows "List.find (\<lambda>x. f x = f e) (rev es) = Some e"
  using assms
proof (induction es rule: rev_induct)
  case Nil
  then show ?case by simp
next
  case (snoc x xs)
  then show ?case by (cases "x = e") (auto simp: image_iff)
qed

lemma find_none_absent: "n \<notin> f ` set es \<Longrightarrow> List.find (\<lambda>x. f x = n) (rev es) = None"
  by (auto simp: find_None_iff)

text \<open>
  Claim C9. The volume list endpoint answers with one record per listed volume, in
  the engine's order, and the \<open>size\<close> of each record is the usage figure of the
  entry of the separately fetched disk-usage report that has the volume's name, or 0
  when no entry of the report has that name, which includes a report without a volume
  section.
\<close>

theorem volume_size_from_usage_report:
  "(\<exists>details. get_volumes (Inr \<lparr>listing_Volumes = Some vols\<rparr>) (Inr df) = Ok200 details
       \<and> map volume_name details = map ev_Name vols)
   \<and> (get_volumes listed usage = Ok200 details \<longrightarrow>
        (\<exists>vols df. listed = Inr \<lparr>listing_Volumes = Some vols\<rparr> \<and> usage = Inr df
           \<and> map volume_name details = map ev_Name vols
           \<and> (\<forall>d \<in> set details. volume_size d = reported_usage df (volume_name d))))
   \<and> (df_Volumes df = None \<longrightarrow> reported_usage df n = 0)
   \<and> (df_Volumes df = Some es \<and> n \<notin> ev_Name ` set es \<longrightarrow> reported_usage df n = 0)
   \<and> (df_Volumes df = Some es \<and> distinct (map ev_Name es) \<and> e \<in> set es \<longrightarrow>
        reported_usage df (ev_Name e) = usage_figure e)"
proof -
  have ok: "\<exists>details. get_volumes (Inr \<lparr>listing_Volumes = Some vols\<rparr>) (Inr df) = Ok200 details
       \<and> map volume_name details = map ev_Name vols"
    by (simp add: get_volumes_def volumeDetails_def)
  have sizes: "get_volumes listed usage = Ok200 details \<longrightarrow>
        (\<exists>vols df. listed = Inr \<lparr>listing_Volumes = Some vols\<rparr> \<and> usage = Inr df
           \<and> map volume_name details = map ev_Name vols
           \<and> (\<forall>d \<in> set details. volume_size d = reported_usage df (volume_name d)))"
  proof
    assume reply: "get_volumes listed usage = Ok200 details"
    then obtain volumesData where l: "listed = Inr volumesData"
      by (cases listed) (simp_all add: get_volumes_def)
    from reply l obtain df' where u: "usage = Inr df'"
      by (cases usage) (simp_all add: get_volumes_def)
    from reply l u obtain vols' where v: "listing_Volumes volumesData = Some vols'"
      by (cases "listing_Volumes volumesData") (simp_all add: get_volumes_def)
    from reply l u v have d: "details = map (volumeDetails (volumeSizes df')) vols'"
      by (simp add: get_volumes_def)
    have "volumesData = \<lparr>listing_Volumes = Some vols'\<rparr>"
      using v by (cases volumesData) simp
    moreover have "map volume_name details = map ev_Name vols'"
      using d by (simp add: volumeDetails_def)
    moreover have "\<forall>d \<in> set details. volume_size d = reported_usage df' (volume_name d)"
      using d by (auto simp: volumeDetails_def volumeSizes_reported)
    ultimately show "\<exists>vols df. listed = Inr \<lparr>listing_Volumes = Some vols\<rparr> \<and> usage = Inr df
           \<and> map volume_name details = map ev_Name vols
           \<and> (\<forall>d \<in> set details. volume_size d = reported_usage df (volume_name d))"
      using l u by blast
  qed
  have none: "df_Volumes df = None \<longrightarrow> reported_usage df n = 0"
    by (simp add: reported_usage_def)
  have absent: "df_Volumes df = Some es \<and> n \<notin> ev_Name ` set es \<longrightarrow> reported_usage df n = 0"
    by (auto simp: reported_usage_def find_none_absent)
  have present: "df_Volumes df = Some es \<and> distinct (map ev_Name es) \<and> e \<in> set es \<longrightarrow>
        reported_usage df (ev_Name e) = usage_figure e"
    by (auto simp: reported_usage_def find_rev_distinct)
  show ?thesis using ok sizes none absent present by blast
qed

theorem volume_size_from_usage_report_witness:
  "get_volumes (Inr example_listing) (Inr example_df)
     = Ok200 [\<lparr>volume_name = ''data'', volume_driver = ''local'',
               volume_mountpoint = ''/var/lib/docker/volumes/data'', volume_created = None,
               volume_size = 100, volume_refCount = 0\<rparr>,
              \<lparr>volume_name = ''cache'', volume_driver = ''local'',
               volume_mountpoint = ''/var/lib/docker/volumes/cache'', volume_created = None,
               volume_size = 0, volume_refCount = 0\<rparr>]
   \<and> reported_usage example_df ''data'' = 100
   \<and> reported_usage example_df ''cache'' = 0
   \<and> reported_usage \<lparr>df_Volumes = None\<rparr> ''data'' = 0"
proof -
  let ?e = "example_volume ''data'' (Some \<lparr>usage_Size = 100, usage_RefCount = 1\<rparr>)"
  let ?details = "[\<lparr>volume_name = ''data'', volume_driver = ''local'',
               volume_mountpoint = ''/var/lib/docker/volumes/data'', volume_created = None,
               volume_size = 100, volume_refCount = 0\<rparr>,
              \<lparr>volume_name = ''cache'', volume_driver = ''local'',
               volume_mountpoint = ''/var/lib/docker/volumes/cache'', volume_created = None,
               volume_size = 0, volume_refCount = 0\<rparr>]"
  have reply: "get_volumes (Inr example_listing) (Inr example_df) = Ok200 ?details"
    by (simp add: get_volumes_def example_listing_def example_df_def example_volume_def
        volumeDetails_def volumeSizes_def opt_or_zero_def or_zero_def)
  have sec: "df_Volumes example_df = Some [?e]" by (simp add: example_df_def)
  have e_name: "ev_Name ?e = ''data''" by (simp add: example_volume_def)
  have pres: "df_Volumes example_df = Some [?e] \<and> distinct (map ev_Name [?e]) \<and> ?e \<in> set [?e]"
    using sec by simp
  have abs: "df_Volumes example_df = Some [?e] \<and> ''cache'' \<notin> ev_Name ` set [?e]"
    using sec by (simp add: example_volume_def)
  note inst1 = volume_size_from_usage_report
    [of "[]" example_df "Inr example_listing" "Inr example_df" ?details "''cache''" "[?e]" ?e]
  note inst2 = volume_size_from_usage_report
    [of "[]" "\<lparr>df_Volumes = None\<rparr>" "Inr example_listing" "Inr example_df" ?details "''data''" "[]" ?e]
  have "reported_usage example_df ''data'' = 100"
    using inst1 pres e_name by (simp add: usage_figure_def example_volume_def)
  moreover have "reported_usage example_df ''cache'' = 0"
    using inst1 abs by blast
  moreover have "reported_usage \<lparr>df_Volumes = None\<rparr> ''data'' = 0"
    using inst2 by simp
  ultimately show ?thesis using reply by blast
qed

section \<open>Dashboard client: refresh and delete\<close>

lemma fetchData_rejected:
  "fetchData (Inl t) s = s\<lparr>error := Some (error_message t), loading := False\<rparr>"
  by (simp add: fetchData_def)

lemma fetchData_not_ok:
  "\<not> ok (containersRes rs) \<or> \<not> ok (imagesRes rs) \<or> \<not> ok (volumesRes rs)
     \<or> \<not> ok (networksRes rs) \<or> \<not> ok (systemRes rs)
   \<Longrightarrow> fetchData (Inr rs) s = s\<lparr>error := Some ''Failed to fetch data'', loading := False\<rparr>"
  by (simp add: fetchData_def error_message_def)

lemma fetchData_all_ok:
  "ok (containersRes rs) \<Longrightarrow> ok (imagesRes rs) \<Longrightarrow> ok (volumesRes rs) \<Longrightarrow> ok (networksRes rs)
   \<Longrightarrow> ok (systemRes rs)
   \<Longrightarrow> json (containersRes rs) = Inr cs \<Longrightarrow> json (imagesRes rs) = Inr is
   \<Longrightarrow> json (volumesRes rs) = Inr vs \<Longrightarrow> json (networksRes rs) = Inr ns
   \<Longrightarrow> json (systemRes rs) = Inr si
   \<Longrightarrow> fetchData (Inr rs) s =
         s\<lparr>containers := cs, images := is, volumes := vs, networks := ns,
           systemInfo := Some si, error := None, loading := False\<rparr>"
  by (simp add: fetchData_def commit_data_def)

lemma fetchData_data_changed:
  assumes "containers (fetchData fetched s) \<noteq> containers s
     \<or> images (fetchData fetched s) \<noteq> images s
     \<or> volumes (fetchData fetched s) \<noteq> volumes s
     \<or> networks (fetchData fetched s) \<noteq> networks s
     \<or> systemInfo (fetchData fetched s) \<noteq> systemInfo s"
  shows "\<exists>rs. fetched = Inr rs \<and> ok (containersRes rs) \<and> ok (imagesRes rs) \<and> ok (volumesRes rs)
     \<and> ok (networksRes rs) \<and> ok (systemRes rs)"
proof (cases fetched)
  case (Inl t)
  with assms show ?thesis by (simp add: fetchData_rejected)
next
  case (Inr rs)
  show ?thesis
  proof (rule ccontr)
    assume "\<not> ?thesis"
    with Inr have "\<not> ok (containersRes rs) \<or> \<not> ok (imagesRes rs) \<or> \<not> ok (volumesRes rs)
     \<or> \<not> ok (networksRes rs) \<or> \<not> ok (systemRes rs)" by blast
    from fetchData_not_ok [OF this, of s] assms Inr show False by simp
  qed
qed

lemma fetchData_loading: "(fetchData fetched s)\<lparr>loading := False\<rparr> = fetchData fetched s"
  by (simp add: fetchData_def Let_def split: prod.splits)

text \<open>
  A delete that ran to its end leaves exactly the state that a refresh of the
  state with the selection emptied leaves: whatever \<open>handleDelete\<close> wrote into
  \<open>error\<close> and \<open>loading\<close> before the refresh is overwritten by \<open>fetchData\<close>.
\<close>

lemma handleDelete_completed:
  assumes "selectedItems s \<noteq> []" and "send (deleteRequest s) = Inr r" and "ok r"
    and "json r = Inr results"
  shows "handleDelete True send fetched s = fetchData fetched (s\<lparr>selectedItems := []\<rparr>)"
proof -
  have pre: "\<And>l e x. fetchData fetched (s\<lparr>loading := l, error := e, selectedItems := x\<rparr>)
      = fetchData fetched (s\<lparr>selectedItems := x\<rparr>)"
    by (simp add: fetchData_def)
  show ?thesis
    using assms
    by (simp add: handleDelete_def set_size_def new_Set_def Let_def fetchData_loading pre)
qed

text \<open>
  Claim C4. A refresh commits no data until all five fetches have completed and all
  five responses are ok: when any one of the five responses is not ok (or one of the
  fetches rejects) the refresh ends with an error shown, the loading flag cleared, and
  the containers, images, volumes, networks and system data, like every other part of
  the state, exactly as they were before. Data in the state changes only through a
  refresh whose five responses are all ok, and then all five parts are replaced. The
  five fetches are one \<open>Promise.all\<close>, whose outcome is the input here; the order in
  which they run is not part of the model.
\<close>

theorem refresh_commits_nothing_on_failure:
  "(\<not> ok (containersRes rs) \<or> \<not> ok (imagesRes rs) \<or> \<not> ok (volumesRes rs)
      \<or> \<not> ok (networksRes rs) \<or> \<not> ok (systemRes rs)
     \<longrightarrow> fetchData (Inr rs) s = s\<lparr>error := Some ''Failed to fetch data'', loading := False\<rparr>)
   \<and> fetchData (Inl t) s = s\<lparr>error := Some (error_message t), loading := False\<rparr>
   \<and> (containers (fetchData fetched s) \<noteq> containers s
        \<or> images (fetchData fetched s) \<noteq> images s
        \<or> volumes (fetchData fetched s) \<noteq> volumes s
        \<or> networks (fetchData fetched s) \<noteq> networks s
        \<or> systemInfo (fetchData fetched s) \<noteq> systemInfo s
      \<longrightarrow> (\<exists>rs. fetched = Inr rs \<and> ok (containersRes rs) \<and> ok (imagesRes rs)
             \<and> ok (volumesRes rs) \<and> ok (networksRes rs) \<and> ok (systemRes rs)))
   \<and> (ok (containersRes rs) \<and> ok (imagesRes rs) \<and> ok (volumesRes rs) \<and> ok (networksRes rs)
        \<and> ok (systemRes rs)
        \<and> json (containersRes rs) = Inr cs \<and> json (imagesRes rs) = Inr is
        \<and> json (volumesRes rs) = Inr vs \<and> json (networksRes rs) = Inr ns
        \<and> json (systemRes rs) = Inr si
      \<longrightarrow> fetchData (Inr rs) s =
            s\<lparr>containers := cs, images := is, volumes := vs, networks := ns,
              systemInfo := Some si, error := None, loading := False\<rparr>)"
  using fetchData_not_ok [of rs s] fetchData_rejected [of t s]
    fetchData_data_changed [of fetched s] fetchData_all_ok [of rs cs "is" vs ns si s]
  by blast

theorem refresh_commits_nothing_on_failure_witness:
  "\<not> ok (imagesRes images_failed)
   \<and> fetchData (Inr images_failed) loaded_state
       = loaded_state\<lparr>error := Some ''Failed to fetch data'', loading := False\<rparr>
   \<and> containers (fetchData (Inr images_failed) loaded_state)
       = [example_container ''c1'' ''/web'', example_container ''c2'' ''/db'']"
proof -
  have bad: "\<not> ok (imagesRes images_failed)" by (simp add: images_failed_def)
  with refresh_commits_nothing_on_failure [of images_failed loaded_state]
  have "fetchData (Inr images_failed) loaded_state
       = loaded_state\<lparr>error := Some ''Failed to fetch data'', loading := False\<rparr>"
    by blast
  with bad show ?thesis by (simp add: loaded_state_def)
qed

text \<open>
  Claim C3. When at least one outcome of a delete is a failure the client sets the
  error to the count of failed items, clears the selection and runs a full refresh.
  The claim adds that the count is still shown after the refresh. It is not: the
  refresh begins by resetting the error, so once the refresh has succeeded no error
  is shown. The theorem evaluates the handler on the specification's scenario:
  \<open>c1\<close> and \<open>c2\<close> selected, the gateway reports \<open>c2\<close> as failed, the refresh
  succeeds.
\<close>

theorem delete_failure_count_lost:
  "gateway_send scenario_engine scenario_world (deleteRequest loaded_state)
     = Inr \<lparr>ok = True,
            json = Inr [\<lparr>result_key = ''id'', result_ident = ''c1'', success = True,
                         result_error = None\<rparr>,
                        \<lparr>result_key = ''id'', result_ident = ''c2'', success = False,
                         result_error = Some ''container is running''\<rparr>]\<rparr>
   \<and> handleDelete True (gateway_send scenario_engine scenario_world) (Inr refreshed) loaded_state
     = loaded_state\<lparr>containers := [example_container ''c2'' ''/db''],
                    systemInfo := Some example_system, selectedItems := [],
                    error := None, loading := False\<rparr>
   \<and> error (handleDelete True (gateway_send scenario_engine scenario_world) (Inr refreshed)
              loaded_state)
     \<noteq> Some ''Failed to delete 1 items''"
proof -
  let ?r = "\<lparr>ok = True,
            json = Inr [\<lparr>result_key = ''id'', result_ident = ''c1'', success = True,
                         result_error = None\<rparr>,
                        \<lparr>result_key = ''id'', result_ident = ''c2'', success = False,
                         result_error = Some ''container is running''\<rparr>]\<rparr>"
  have sent: "gateway_send scenario_engine scenario_world (deleteRequest loaded_state) = Inr ?r"
    by (simp add: gateway_send_def deleteRequest_def loaded_state_def initial_state_def
        Array_from_def delete_containers_def scenario_engine_def scenario_world_def
        container_remove_def docker_remove_def)
  have sel: "selectedItems loaded_state \<noteq> []"
    by (simp add: loaded_state_def)
  have "handleDelete True (gateway_send scenario_engine scenario_world) (Inr refreshed) loaded_state
      = fetchData (Inr refreshed) (loaded_state\<lparr>selectedItems := []\<rparr>)"
    using handleDelete_completed
      [of loaded_state "gateway_send scenario_engine scenario_world" ?r _ "Inr refreshed"] sel sent
    by simp
  also have "\<dots> = loaded_state\<lparr>containers := [example_container ''c2'' ''/db''],
                    systemInfo := Some example_system, selectedItems := [],
                    error := None, loading := False\<rparr>"
    by (simp add: fetchData_def commit_data_def refreshed_def loaded_state_def initial_state_def)
  finally show ?thesis using sent by simp
qed

section \<open>Dashboard client: the table\<close>

subsection \<open>The search filter and the model of sort\<close>

lemma js_includes_iff: "js_includes s t \<longleftrightarrow> (\<exists>p q. s = p @ t @ q)"
proof (induction s)
  case Nil
  show ?case by auto
next
  case (Cons c cs)
  show ?case
  proof
    assume "js_includes (c # cs) t"
    then consider "prefix t (c # cs)" | "js_includes cs t" by auto
    then show "\<exists>p q. c # cs = p @ t @ q"
    proof cases
      case 1
      then obtain q where "c # cs = t @ q" by (auto simp: prefix_def)
      then have "c # cs = [] @ t @ q" by simp
      then show ?thesis by blast
    next
      case 2
      with Cons obtain p q where "cs = p @ t @ q" by blast
      then have "c # cs = (c # p) @ t @ q" by simp
      then show ?thesis by blast
    qed
  next
    assume "\<exists>p q. c # cs = p @ t @ q"
    then obtain p q where pq: "c # cs = p @ t @ q" by blast
    show "js_includes (c # cs) t"
    proof (cases p)
      case Nil
      with pq have "prefix t (c # cs)" by (simp add: prefix_def)
      then show ?thesis by simp
    next
      case (Cons a p')
      with pq have "cs = p' @ t @ q" by simp
      with Cons.IH show ?thesis by auto
    qed
  qed
qed

lemma getFilteredItems_search_filter:
  "getFilteredItems rt s = search_filter rt (searchTerm s) (tabItems s)"
  by (cases "activeTab s")
     (auto simp: getFilteredItems_def search_filter_def tabItems_def search_match_def
        filter_map comp_def Let_def list_ex_iff intro!: arg_cong [where f = "map _"] filter_cong)

lemma insert_row_mset: "insert_row cmp x ys = Inr zs \<Longrightarrow> mset zs = add_mset x (mset ys)"
  by (induction ys arbitrary: zs) (auto split: sum.splits if_splits)

lemma array_sort_mset: "array_sort cmp xs = Inr ys \<Longrightarrow> mset ys = mset xs"
  by (induction xs arbitrary: ys) (auto split: sum.splits dest: insert_row_mset)






subsection \<open>Selection\<close>

lemma set_foldl_set_add: "set (foldl set_add acc xs) = set acc \<union> set xs"
  by (induction xs arbitrary: acc) (auto simp: set_add_def set_has_def)

lemma distinct_foldl_set_add: "distinct acc \<Longrightarrow> distinct (foldl set_add acc xs)"
  by (induction xs arbitrary: acc) (auto simp: set_add_def set_has_def)

lemma set_new_Set: "set (new_Set xs) = set xs"
  by (simp add: new_Set_def set_foldl_set_add)

lemma distinct_new_Set: "distinct (new_Set xs)"
  by (simp add: new_Set_def distinct_foldl_set_add)

lemma foldl_set_add_distinct: "distinct (acc @ xs) \<Longrightarrow> foldl set_add acc xs = acc @ xs"
  by (induction xs arbitrary: acc) (auto simp: set_add_def set_has_def)

lemma new_Set_distinct: "distinct xs \<Longrightarrow> new_Set xs = xs"
  using foldl_set_add_distinct [of "[]" xs] by (simp add: new_Set_def)

lemma rowId_tabItems: "item \<in> set (tabItems s) \<Longrightarrow> rowId (activeTab s) item = item_ident item"
  by (cases "activeTab s") (auto simp: tabItems_def rowId_def)

lemma search_filter_subset: "set (search_filter rt term items) \<subseteq> set items"
  by (auto simp: search_filter_def)

lemma sortItems_mset: "sortItems rt s items = Inr rows \<Longrightarrow> mset rows = mset items"
  by (auto simp: sortItems_def split: option.splits dest: array_sort_mset)

lemma visible_rows_mset:
  "getSortedAndFilteredItems rt s = Inr rows \<Longrightarrow>
     mset rows = mset (search_filter rt (searchTerm s) (tabItems s))"
  by (simp add: getSortedAndFilteredItems_def getFilteredItems_search_filter sortItems_mset)

lemma visible_rows_subset:
  assumes "getSortedAndFilteredItems rt s = Inr rows"
  shows "set rows \<subseteq> set (tabItems s)"
proof -
  have "set rows = set (search_filter rt (searchTerm s) (tabItems s))"
    using visible_rows_mset [OF assms] by (metis set_mset_mset)
  then show ?thesis using search_filter_subset by blast
qed

lemma fetchData_selectedItems: "selectedItems (fetchData fetched s) = selectedItems s"
proof (cases fetched)
  case (Inl t)
  then show ?thesis by (simp add: fetchData_def)
next
  case (Inr rs)
  have "selectedItems (fst (commit_data rs s')) = selectedItems s'" for s'
    by (simp add: commit_data_def split: sum.splits)
  from this [of "s\<lparr>loading := True, error := None\<rparr>"]
  obtain x t where eq: "commit_data rs (s\<lparr>loading := True, error := None\<rparr>) = (x, t)"
    and x: "selectedItems x = selectedItems s"
    by (cases "commit_data rs (s\<lparr>loading := True, error := None\<rparr>)") simp
  show ?thesis using Inr eq x
    by (cases t) (auto simp: fetchData_def Let_def)
qed

lemma handleDelete_selection_changed:
  assumes "selectedItems (handleDelete confirmed send fetched s) \<noteq> selectedItems s"
  shows "confirmed \<and> (\<exists>r results. send (deleteRequest s) = Inr r \<and> ok r \<and> json r = Inr results)"
proof (rule ccontr)
  assume neg: "\<not> ?thesis"
  have "handleDelete confirmed send fetched s = s
      \<or> (\<exists>e. handleDelete confirmed send fetched s = s\<lparr>error := e, loading := False\<rparr>)"
  proof (cases "selectedItems s = [] \<or> \<not> confirmed")
    case True
    then show ?thesis by (auto simp: handleDelete_def set_size_def)
  next
    case False
    show ?thesis
    proof (cases "send (deleteRequest s)")
      case (Inl t)
      with False show ?thesis by (auto simp: handleDelete_def set_size_def)
    next
      case (Inr r)
      show ?thesis
      proof (cases "ok r")
        case no: False
        with Inr False show ?thesis by (auto simp: handleDelete_def set_size_def)
      next
        case True
        with neg False Inr obtain t where "json r = Inl t" by (cases "json r") auto
        with True Inr False show ?thesis by (auto simp: handleDelete_def set_size_def)
      qed
    qed
  qed
  with assms show False by auto
qed

lemma map_rowId_visible:
  assumes "getSortedAndFilteredItems rt s = Inr rows"
  shows "map (rowId (activeTab s)) rows = map item_ident rows"
  using visible_rows_subset [OF assms] by (auto simp: rowId_tabItems)

lemma handleSelectAll_cases:
  "handleSelectAll rt s =
     (case getSortedAndFilteredItems rt s of
        Inl e \<Rightarrow> Inl e
      | Inr rows \<Rightarrow>
          Inr (s\<lparr>selectedItems :=
                 (if length (selectedItems s) = length rows then []
                  else new_Set (map item_ident rows))\<rparr>))"
  by (cases "getSortedAndFilteredItems rt s")
     (auto simp: handleSelectAll_def set_size_def new_Set_def Let_def map_rowId_visible)

text \<open>
  Claim C2, as amended. Select-all is a toggle by size, scoped to the currently
  visible (filtered and sorted) rows: when the number of selected identifiers equals
  the number of visible rows it empties the selection, hidden identifiers included;
  otherwise it makes the selection exactly the identifiers of the visible rows, so a
  selected identifier whose row is hidden is dropped. The visible rows are a
  rearrangement of the rows of the active tab that pass the search filter.
\<close>

theorem select_all_toggles_by_size:
  "(getSortedAndFilteredItems rt s = Inr rows \<and> length (selectedItems s) = length rows
      \<longrightarrow> handleSelectAll rt s = Inr (s\<lparr>selectedItems := []\<rparr>))
   \<and> (getSortedAndFilteredItems rt s = Inr rows \<and> length (selectedItems s) \<noteq> length rows
      \<longrightarrow> (\<exists>sel. handleSelectAll rt s = Inr (s\<lparr>selectedItems := sel\<rparr>)
             \<and> sel = new_Set (map item_ident rows)
             \<and> distinct sel \<and> set sel = item_ident ` set rows))
   \<and> (getSortedAndFilteredItems rt s = Inl e \<longrightarrow> handleSelectAll rt s = Inl e)
   \<and> (getSortedAndFilteredItems rt s = Inr rows
      \<longrightarrow> mset rows = mset (search_filter rt (searchTerm s) (tabItems s)))"
  using visible_rows_mset [of rt s rows]
  by (simp add: handleSelectAll_cases distinct_new_Set set_new_Set)

lemma narrowed_visible:
  "getSortedAndFilteredItems ascii_runtime narrowed_state
     = Inr [ContainerItem (example_container ''a'' ''/web-a''),
            ContainerItem (example_container ''b'' ''/web-b'')]"
  by (simp add: getSortedAndFilteredItems_def getFilteredItems_def narrowed_state_def
      initial_state_def sortItems_def ascii_runtime_def ascii_lower_def example_container_def)

theorem select_all_toggles_by_size_witness:
  "getSortedAndFilteredItems ascii_runtime narrowed_state
     = Inr [ContainerItem (example_container ''a'' ''/web-a''),
            ContainerItem (example_container ''b'' ''/web-b'')]
   \<and> length (selectedItems narrowed_state) \<noteq> 2
   \<and> handleSelectAll ascii_runtime narrowed_state
     = Inr (narrowed_state\<lparr>selectedItems := [''a'', ''b'']\<rparr>)
   \<and> handleSelectAll ascii_runtime (narrowed_state\<lparr>selectedItems := [''c'', ''d'']\<rparr>)
     = Inr (narrowed_state\<lparr>selectedItems := []\<rparr>)"
proof -
  let ?rows = "[ContainerItem (example_container ''a'' ''/web-a''),
            ContainerItem (example_container ''b'' ''/web-b'')]"
  have len: "length (selectedItems narrowed_state) \<noteq> length ?rows"
    by (simp add: narrowed_state_def)
  have ids: "new_Set (map item_ident ?rows) = [''a'', ''b'']"
    by (simp add: new_Set_def set_add_def set_has_def example_container_def)
  have vis2: "getSortedAndFilteredItems ascii_runtime (narrowed_state\<lparr>selectedItems := [''c'', ''d'']\<rparr>)
      = Inr ?rows"
    by (simp add: getSortedAndFilteredItems_def getFilteredItems_def narrowed_state_def
      initial_state_def sortItems_def ascii_runtime_def ascii_lower_def example_container_def)
  have one: "handleSelectAll ascii_runtime narrowed_state
     = Inr (narrowed_state\<lparr>selectedItems := [''a'', ''b'']\<rparr>)"
    using select_all_toggles_by_size [of ascii_runtime narrowed_state ?rows]
      narrowed_visible len ids by auto
  have two: "handleSelectAll ascii_runtime (narrowed_state\<lparr>selectedItems := [''c'', ''d'']\<rparr>)
     = Inr (narrowed_state\<lparr>selectedItems := []\<rparr>)"
    using select_all_toggles_by_size
      [of ascii_runtime "narrowed_state\<lparr>selectedItems := [''c'', ''d'']\<rparr>" ?rows] vis2
    by simp
  show ?thesis using narrowed_visible len one two by simp
qed

text \<open>
  Claim C2 as stated fails. With \<open>a\<close>, \<open>b\<close> and \<open>c\<close> selected and the search
  narrowing the table to \<open>a\<close> and \<open>b\<close>, the claim has select-all leave \<open>c\<close>
  selected and deselect \<open>a\<close> and \<open>b\<close>; the handler selects \<open>a\<close> and \<open>b\<close>
  and drops \<open>c\<close>. With the two hidden containers \<open>c\<close> and \<open>d\<close> selected and
  \<open>a\<close> and \<open>b\<close> visible, the claim has select-all select the visible rows; the
  handler empties the selection.
\<close>

theorem select_all_narrowed_counterexample:
  "map_sum id (map item_ident) (getSortedAndFilteredItems ascii_runtime narrowed_state)
     = Inr [''a'', ''b'']
   \<and> selectedItems narrowed_state = [''a'', ''b'', ''c'']
   \<and> map_sum id selectedItems (handleSelectAll ascii_runtime narrowed_state) = Inr [''a'', ''b'']
   \<and> \<not> (\<exists>s'. handleSelectAll ascii_runtime narrowed_state = Inr s'
            \<and> set (selectedItems s') = set (selectedItems narrowed_state) - {''a'', ''b''})
   \<and> map_sum id selectedItems
        (handleSelectAll ascii_runtime (narrowed_state\<lparr>selectedItems := [''c'', ''d'']\<rparr>))
     = Inr []"
proof -
  have vis2: "getSortedAndFilteredItems ascii_runtime (narrowed_state\<lparr>selectedItems := [''c'', ''d'']\<rparr>)
      = Inr [ContainerItem (example_container ''a'' ''/web-a''),
            ContainerItem (example_container ''b'' ''/web-b'')]"
    by (simp add: getSortedAndFilteredItems_def getFilteredItems_def narrowed_state_def
      initial_state_def sortItems_def ascii_runtime_def ascii_lower_def example_container_def)
  have ids: "new_Set [''a'', ''b''] = [''a'', ''b'']"
    by (simp add: new_Set_def set_add_def set_has_def)
  have sel: "selectedItems narrowed_state = [''a'', ''b'', ''c'']"
    by (simp add: narrowed_state_def)
  have res: "handleSelectAll ascii_runtime narrowed_state
      = Inr (narrowed_state\<lparr>selectedItems := [''a'', ''b'']\<rparr>)"
    by (simp add: handleSelectAll_cases narrowed_visible sel ids example_container_def)
  have res2: "handleSelectAll ascii_runtime (narrowed_state\<lparr>selectedItems := [''c'', ''d'']\<rparr>)
      = Inr (narrowed_state\<lparr>selectedItems := []\<rparr>)"
    by (simp add: handleSelectAll_cases vis2)
  show ?thesis
    using res res2 sel by (auto simp: narrowed_visible example_container_def)
qed

subsection \<open>What changes the selection\<close>

lemma step_selection_changed:
  assumes "step rt ev s = Inr s'" and "selectedItems s' \<noteq> selectedItems s"
  shows "(\<exists>tab. ev = TabClick tab) \<or> (\<exists>i. ev = RowToggle i) \<or> ev = SelectAllClick
     \<or> (\<exists>send fetched r results. ev = DeleteClick True send fetched
           \<and> send (deleteRequest s) = Inr r \<and> ok r \<and> json r = Inr results)"
proof (cases ev)
  case (SearchInput v)
  with assms show ?thesis by (auto simp: setSearchTerm_def)
next
  case (HeaderClick k)
  with assms show ?thesis by (auto simp: handleSort_def Let_def)
next
  case (DeleteClick confirmed send fetched)
  with assms have "selectedItems (handleDelete confirmed send fetched s) \<noteq> selectedItems s"
    by auto
  from handleDelete_selection_changed [OF this] DeleteClick show ?thesis by auto
next
  case (RefreshClick fetched)
  with assms show ?thesis by (auto simp: fetchData_selectedItems)
qed auto

text \<open>
  Claim C10, as amended. Changing the search text changes nothing but the search
  text: identifiers selected before stay selected when the filter hides their rows,
  and a delete sends the whole selection, hidden rows included, with no need to select
  again. Apart from the selection controls themselves (the toggle of a row and
  select-all), the selection changes only by a tab switch or a completed delete (one
  that was confirmed and got an ok response with a readable body), and these two
  empty it.
\<close>

theorem search_keeps_selection:
  "setSearchTerm v s = s\<lparr>searchTerm := v\<rparr>
   \<and> selectedItems (setSearchTerm v s) = selectedItems s
   \<and> deleteRequest (setSearchTerm v s) = deleteRequest s
   \<and> request_body (deleteRequest s)
       = (if activeTab s = Volumes
          then \<lparr>body_ids = None, body_names = Some (selectedItems s)\<rparr>
          else \<lparr>body_ids = Some (selectedItems s), body_names = None\<rparr>)
   \<and> (step rt ev s = Inr s' \<and> selectedItems s' \<noteq> selectedItems s \<longrightarrow>
        (\<exists>tab. ev = TabClick tab) \<or> (\<exists>i. ev = RowToggle i) \<or> ev = SelectAllClick
        \<or> (\<exists>send fetched r results. ev = DeleteClick True send fetched
              \<and> send (deleteRequest s) = Inr r \<and> ok r \<and> json r = Inr results))
   \<and> selectedItems (selectTab tab s) = []
   \<and> (selectedItems s \<noteq> [] \<and> send (deleteRequest s) = Inr r \<and> ok r \<and> json r = Inr results
        \<longrightarrow> selectedItems (handleDelete True send fetched s) = [])"
proof -
  have "selectedItems s \<noteq> [] \<and> send (deleteRequest s) = Inr r \<and> ok r \<and> json r = Inr results
        \<longrightarrow> selectedItems (handleDelete True send fetched s) = []"
    by (auto simp: handleDelete_completed fetchData_selectedItems)
  moreover have "step rt ev s = Inr s' \<and> selectedItems s' \<noteq> selectedItems s \<longrightarrow>
        (\<exists>tab. ev = TabClick tab) \<or> (\<exists>i. ev = RowToggle i) \<or> ev = SelectAllClick
        \<or> (\<exists>send fetched r results. ev = DeleteClick True send fetched
              \<and> send (deleteRequest s) = Inr r \<and> ok r \<and> json r = Inr results)"
    using step_selection_changed [of rt ev s s'] by blast
  moreover have "deleteRequest (setSearchTerm v s) = deleteRequest s"
    by (simp add: deleteRequest_def setSearchTerm_def)
  moreover have "request_body (deleteRequest s)
       = (if activeTab s = Volumes
          then \<lparr>body_ids = None, body_names = Some (selectedItems s)\<rparr>
          else \<lparr>body_ids = Some (selectedItems s), body_names = None\<rparr>)"
    by (simp add: deleteRequest_def Array_from_def)
  moreover have "selectedItems (selectTab tab s) = []"
    by (simp add: selectTab_def new_Set_def)
  ultimately show ?thesis by (simp add: setSearchTerm_def)
qed

theorem search_keeps_selection_witness:
  "step ascii_runtime (SearchInput ''web'') (narrowed_state\<lparr>searchTerm := []\<rparr>) = Inr narrowed_state
   \<and> selectedItems narrowed_state = [''a'', ''b'', ''c'']
   \<and> request_body (deleteRequest narrowed_state)
       = \<lparr>body_ids = Some [''a'', ''b'', ''c''], body_names = None\<rparr>
   \<and> step ascii_runtime (TabClick Images) narrowed_state
       = Inr (initial_state\<lparr>activeTab := Images, containers := containers narrowed_state\<rparr>)
   \<and> selectedItems (initial_state\<lparr>activeTab := Images, containers := containers narrowed_state\<rparr>)
       \<noteq> selectedItems narrowed_state"
  using search_keeps_selection
    [of "''web''" "narrowed_state\<lparr>searchTerm := []\<rparr>" ascii_runtime "SearchInput ''web''" narrowed_state]
    search_keeps_selection
    [of "''web''" "narrowed_state" ascii_runtime "TabClick Images"
      "initial_state\<lparr>activeTab := Images, containers := containers narrowed_state\<rparr>"]
  by (simp add: narrowed_state_def initial_state_def selectTab_def new_Set_def)

text \<open>
  Claim C10 as stated fails in its last clause: a click on select-all while as many
  identifiers are selected as rows are visible empties the selection, and so does the
  toggle of the only selected row; neither is a tab switch or a delete.
\<close>

theorem select_all_clears_counterexample:
  "selectedItems loaded_state = [''c1'', ''c2'']
   \<and> step ascii_runtime SelectAllClick loaded_state = Inr (loaded_state\<lparr>selectedItems := []\<rparr>)
   \<and> \<not> (\<exists>tab. SelectAllClick = TabClick tab)
   \<and> \<not> (\<exists>confirmed send fetched. SelectAllClick = DeleteClick confirmed send fetched)
   \<and> step ascii_runtime (RowToggle ''c1'') (loaded_state\<lparr>selectedItems := [''c1'']\<rparr>)
       = Inr (loaded_state\<lparr>selectedItems := []\<rparr>)"
proof -
  have vis: "getSortedAndFilteredItems ascii_runtime loaded_state
      = Inr [ContainerItem (example_container ''c1'' ''/web''),
             ContainerItem (example_container ''c2'' ''/db'')]"
    by (simp add: getSortedAndFilteredItems_def getFilteredItems_def loaded_state_def
        initial_state_def sortItems_def)
  have sel: "selectedItems loaded_state = [''c1'', ''c2'']"
    by (simp add: loaded_state_def)
  have all: "handleSelectAll ascii_runtime loaded_state = Inr (loaded_state\<lparr>selectedItems := []\<rparr>)"
    by (simp add: handleSelectAll_cases vis sel)
  have row: "handleSelectItem ''c1'' (loaded_state\<lparr>selectedItems := [''c1'']\<rparr>)
      = loaded_state\<lparr>selectedItems := []\<rparr>"
    by (simp add: handleSelectItem_def new_Set_def set_add_def set_has_def set_delete_def)
  show ?thesis using sel all row by simp
qed

subsection \<open>The comparison of two rows\<close>




















subsection \<open>Filter, then sort\<close>

lemma search_match_iff:
  "search_match rt term item \<longleftrightarrow>
     (\<exists>field\<in>set (search_fields item). \<exists>p q. toLowerCase rt field = p @ toLowerCase rt term @ q)"
  by (simp add: search_match_def list_ex_iff js_includes_iff)

lemma visible_rows_set:
  assumes "getSortedAndFilteredItems rt s = Inr rows" and "searchTerm s \<noteq> []"
  shows "set rows = {item \<in> set (tabItems s). search_match rt (searchTerm s) item}"
proof -
  have "set rows = set (search_filter rt (searchTerm s) (tabItems s))"
    using visible_rows_mset [OF assms(1)] by (metis set_mset_mset)
  with assms(2) show ?thesis by (auto simp: search_filter_def)
qed

text \<open>
  Claim C7. The displayed rows are the sort applied to the filtered rows of the
  active tab. The filter keeps, when there is search text, the rows that have the
  lower-cased search text as a substring of one of their lower-cased search fields
  (container: every name, the image reference, the status; image: every tag, the id;
  volume: name, driver; network: name, driver), and every row when there is none. The
  sort, when it succeeds, only rearranges the filtered rows.
\<close>

theorem displayed_rows_filter_then_sort:
  "getSortedAndFilteredItems rt s = sortItems rt s (search_filter rt (searchTerm s) (tabItems s))
   \<and> (searchTerm s \<noteq> [] \<longrightarrow>
        search_filter rt (searchTerm s) (tabItems s)
          = filter (search_match rt (searchTerm s)) (tabItems s))
   \<and> (searchTerm s = [] \<longrightarrow> search_filter rt (searchTerm s) (tabItems s) = tabItems s)
   \<and> (search_match rt term item \<longleftrightarrow>
        (\<exists>field\<in>set (search_fields item). \<exists>p q. toLowerCase rt field = p @ toLowerCase rt term @ q))
   \<and> search_fields (ContainerItem c) = container_names c @ [container_image c, container_status c]
   \<and> search_fields (ImageItem i) = image_repoTags i @ [image_id i]
   \<and> search_fields (VolumeItem vol) = [volume_name vol, volume_driver vol]
   \<and> search_fields (NetworkItem n) = [network_name n, network_driver n]
   \<and> (getSortedAndFilteredItems rt s = Inr rows \<longrightarrow>
        mset rows = mset (search_filter rt (searchTerm s) (tabItems s)))
   \<and> (getSortedAndFilteredItems rt s = Inr rows \<and> searchTerm s \<noteq> [] \<longrightarrow>
        set rows = {item \<in> set (tabItems s). search_match rt (searchTerm s) item})"
proof -
  have comp: "getSortedAndFilteredItems rt s
      = sortItems rt s (search_filter rt (searchTerm s) (tabItems s))"
    by (simp add: getSortedAndFilteredItems_def getFilteredItems_search_filter)
  have perm: "getSortedAndFilteredItems rt s = Inr rows \<longrightarrow>
        mset rows = mset (search_filter rt (searchTerm s) (tabItems s))"
    using visible_rows_mset by blast
  have vis: "getSortedAndFilteredItems rt s = Inr rows \<and> searchTerm s \<noteq> [] \<longrightarrow>
        set rows = {item \<in> set (tabItems s). search_match rt (searchTerm s) item}"
    using visible_rows_set [of rt s rows] by blast
  have flt: "searchTerm s \<noteq> [] \<longrightarrow>
        search_filter rt (searchTerm s) (tabItems s)
          = filter (search_match rt (searchTerm s)) (tabItems s)"
    "searchTerm s = [] \<longrightarrow> search_filter rt (searchTerm s) (tabItems s) = tabItems s"
    by (simp_all add: search_filter_def)
  have fields: "search_fields (ContainerItem c) = container_names c @ [container_image c, container_status c]"
    "search_fields (ImageItem i) = image_repoTags i @ [image_id i]"
    "search_fields (VolumeItem vol) = [volume_name vol, volume_driver vol]"
    "search_fields (NetworkItem n) = [network_name n, network_driver n]"
    by simp_all
  show ?thesis
    using comp flt search_match_iff [of rt "term" item] fields perm vis
    by (intro conjI)
qed

theorem displayed_rows_filter_then_sort_witness:
  "getSortedAndFilteredItems ascii_runtime
       (images_state\<lparr>searchTerm := ''X:Latest'', sortConfig := Some \<lparr>key = ''size'', direction = Desc\<rparr>\<rparr>)
     = Inr [ImageItem (example_image ''sha256:aaa'' [''x:latest''] 100)]
   \<and> search_filter ascii_runtime ''X:Latest'' (tabItems images_state)
     = [ImageItem (example_image ''sha256:aaa'' [''x:latest''] 100)]
   \<and> getSortedAndFilteredItems ascii_runtime
       (images_state\<lparr>sortConfig := Some \<lparr>key = ''size'', direction = Desc\<rparr>\<rparr>)
     = Inr [ImageItem (example_image ''sha256:aaa'' [''x:latest''] 100),
            ImageItem (example_image ''sha256:ccc'' [''y:1''] 100),
            ImageItem (example_image ''sha256:bbb'' [] 50)]"
proof -
  let ?s = "images_state\<lparr>searchTerm := ''X:Latest'',
              sortConfig := Some \<lparr>key = ''size'', direction = Desc\<rparr>\<rparr>"
  let ?t = "images_state\<lparr>sortConfig := Some \<lparr>key = ''size'', direction = Desc\<rparr>\<rparr>"
  note comp_s = displayed_rows_filter_then_sort [of ascii_runtime ?s, THEN conjunct1]
  note flt_s = displayed_rows_filter_then_sort
    [of ascii_runtime ?s, THEN conjunct2, THEN conjunct1, rule_format]
  note comp_t = displayed_rows_filter_then_sort [of ascii_runtime ?t, THEN conjunct1]
  note all_t = displayed_rows_filter_then_sort
    [of ascii_runtime ?t, THEN conjunct2, THEN conjunct2, THEN conjunct1, rule_format]
  have term_s: "searchTerm ?s = ''X:Latest''" by simp
  have term_t: "searchTerm ?t = []" by (simp add: images_state_def initial_state_def)
  have tabs: "tabItems ?s = tabItems images_state" "tabItems ?t = tabItems images_state"
    by (simp_all add: tabItems_def images_state_def initial_state_def)
  have matching: "filter (search_match ascii_runtime ''X:Latest'') (tabItems images_state)
      = [ImageItem (example_image ''sha256:aaa'' [''x:latest''] 100)]"
    by (simp add: search_match_def tabItems_def images_state_def initial_state_def
        ascii_runtime_def ascii_lower_def example_image_def)
  have one: "search_filter ascii_runtime ''X:Latest'' (tabItems images_state)
      = [ImageItem (example_image ''sha256:aaa'' [''x:latest''] 100)]"
    using flt_s matching unfolding term_s tabs by simp
  have "sortItems ascii_runtime ?s [ImageItem (example_image ''sha256:aaa'' [''x:latest''] 100)]
      = Inr [ImageItem (example_image ''sha256:aaa'' [''x:latest''] 100)]"
    by (simp add: sortItems_def)
  then have two: "getSortedAndFilteredItems ascii_runtime ?s
      = Inr [ImageItem (example_image ''sha256:aaa'' [''x:latest''] 100)]"
    using comp_s one unfolding term_s tabs by simp
  have all: "search_filter ascii_runtime (searchTerm ?t) (tabItems ?t) = tabItems images_state"
    using all_t [OF term_t] unfolding tabs .
  have "sortItems ascii_runtime ?t (tabItems images_state)
     = Inr [ImageItem (example_image ''sha256:aaa'' [''x:latest''] 100),
            ImageItem (example_image ''sha256:ccc'' [''y:1''] 100),
            ImageItem (example_image ''sha256:bbb'' [] 50)]"
    by (simp add: sortItems_def tabItems_def images_state_def initial_state_def
        compareItems_def sortValue_def nullish_def example_image_def)
  then have three: "getSortedAndFilteredItems ascii_runtime ?t
     = Inr [ImageItem (example_image ''sha256:aaa'' [''x:latest''] 100),
            ImageItem (example_image ''sha256:ccc'' [''y:1''] 100),
            ImageItem (example_image ''sha256:bbb'' [] 50)]"
    using comp_t all by simp
  show ?thesis using one two three by blast
qed

end
